theory Spec2Isabelle
  imports Main "HOL-Library.Sublist" "HOL-Library.AList"
begin

section \<open>Python values used by the build environments\<close>

text \<open>
  The development embeds \<^verbatim>\<open>readthedocs/doc_builder/environments.py\<close>. A Python
  \<^verbatim>\<open>str\<close> is a list of code points, \<^verbatim>\<open>bytes\<close> a list of 8-bit characters, an
  \<^verbatim>\<open>int\<close> an \<^typ>\<open>int\<close>. Logging calls and the start/end timestamps read from
  the clock are left out everywhere: no function of the module branches on them.
  \<^verbatim>\<open>gettext\<close> is the identity (the untranslated text).
\<close>

type_synonym pystr = "nat list"
type_synonym pybytes = "char list"

definition py :: "string \<Rightarrow> pystr" where
  "py s = map of_char s"

text \<open>\<^verbatim>\<open>str(n)\<close> for an integer: decimal digits, with a minus sign when negative.\<close>

function str_nat :: "nat \<Rightarrow> pystr" where
  "str_nat n = (if n < 10 then [48 + n] else str_nat (n div 10) @ [48 + n mod 10])"
  by pat_completeness auto
termination
  by (relation "measure id") auto

declare str_nat.simps [simp del]

definition str_int :: "int \<Rightarrow> pystr" where
  "str_int i = (if i < 0 then 45 # str_nat (nat (- i)) else str_nat (nat i))"

text \<open>\<^verbatim>\<open>xs[i:]\<close>: a negative start counts from the end and is clipped at the front.\<close>

definition slice_from :: "int \<Rightarrow> 'a list \<Rightarrow> 'a list" where
  "slice_from i xs = drop (if i < 0 then nat (int (length xs) + i) else nat i) xs"

text \<open>\<^verbatim>\<open>sep.join(xs)\<close>.\<close>

fun join :: "pystr \<Rightarrow> pystr list \<Rightarrow> pystr" where
  "join sep [] = []"
| "join sep [x] = x"
| "join sep (x # y # ys) = x @ sep @ join sep (y # ys)"

text \<open>\<^verbatim>\<open>sub in s\<close> for strings: \<open>sub\<close> occurs as a contiguous run of \<open>s\<close>.\<close>

fun py_in :: "pystr \<Rightarrow> pystr \<Rightarrow> bool" where
  "py_in sub [] = (sub = [])"
| "py_in sub (c # cs) = (take (length sub) (c # cs) = sub \<or> py_in sub cs)"

text \<open>
  \<^verbatim>\<open>str.splitlines()\<close>: the line boundaries are LF, CR, CR LF, VT, FF, FS, GS, RS, NEL,
  LS and PS; the boundaries are dropped and no empty last line is produced.
\<close>

definition is_linebreak :: "nat \<Rightarrow> bool" where
  "is_linebreak c = (c \<in> set [10, 11, 12, 13, 28, 29, 30, 133, 8232, 8233])"

fun splitlines_from :: "pystr \<Rightarrow> pystr \<Rightarrow> pystr list" where
  "splitlines_from cur [] = (if cur = [] then [] else [rev cur])"
| "splitlines_from cur [c] = (if is_linebreak c then [rev cur] else [rev (c # cur)])"
| "splitlines_from cur (c # d # ds) =
     (if c = 13 \<and> d = 10 then rev cur # splitlines_from [] ds
      else if is_linebreak c then rev cur # splitlines_from [] (d # ds)
      else splitlines_from (c # cur) (d # ds))"

definition splitlines :: "pystr \<Rightarrow> pystr list" where
  "splitlines s = splitlines_from [] s"

text \<open>
  \<^verbatim>\<open>bytes.decode('utf-8', 'replace')\<close>: well-formed sequences give their code point;
  every maximal ill-formed prefix of a sequence (a byte that cannot start one, or a
  lead byte with the continuation bytes accepted so far) gives one U+FFFD, and
  decoding resumes at the offending byte.
\<close>

definition is_cont :: "nat \<Rightarrow> bool" where
  "is_cont b = (128 \<le> b \<and> b \<le> 191)"

definition second_ok :: "nat \<Rightarrow> nat \<Rightarrow> bool" where
  "second_ok b c =
     ((if b = 224 then 160 else if b = 240 then 144 else 128) \<le> c \<and>
      c \<le> (if b = 237 then 159 else if b = 244 then 143 else 191))"

fun utf8_decode :: "nat list \<Rightarrow> pystr" where
  "utf8_decode [] = []"
| "utf8_decode (b # bs) =
     (if b < 128 then b # utf8_decode bs
      else if 194 \<le> b \<and> b \<le> 223 then
        (case bs of
           [] \<Rightarrow> [65533]
         | c # bs1 \<Rightarrow>
             if is_cont c then ((b - 192) * 64 + (c - 128)) # utf8_decode bs1
             else 65533 # utf8_decode bs)
      else if 224 \<le> b \<and> b \<le> 239 then
        (case bs of
           [] \<Rightarrow> [65533]
         | c # bs1 \<Rightarrow>
             if second_ok b c then
               (case bs1 of
                  [] \<Rightarrow> [65533]
                | d # bs2 \<Rightarrow>
                    if is_cont d
                    then ((b - 224) * 4096 + (c - 128) * 64 + (d - 128)) # utf8_decode bs2
                    else 65533 # utf8_decode bs1)
             else 65533 # utf8_decode bs)
      else if 240 \<le> b \<and> b \<le> 244 then
        (case bs of
           [] \<Rightarrow> [65533]
         | c # bs1 \<Rightarrow>
             if second_ok b c then
               (case bs1 of
                  [] \<Rightarrow> [65533]
                | d # bs2 \<Rightarrow>
                    if is_cont d then
                      (case bs2 of
                         [] \<Rightarrow> [65533]
                       | e # bs3 \<Rightarrow>
                           if is_cont e
                           then ((b - 240) * 262144 + (c - 128) * 4096 + (d - 128) * 64
                                  + (e - 128)) # utf8_decode bs3
                           else 65533 # utf8_decode bs2)
                    else 65533 # utf8_decode bs1)
             else 65533 # utf8_decode bs)
      else 65533 # utf8_decode bs)"

text \<open>The size of a \<^verbatim>\<open>str\<close> once encoded as UTF-8, the encoding the API request uses.\<close>

definition utf8_size :: "nat \<Rightarrow> nat" where
  "utf8_size c = (if c < 128 then 1 else if c < 2048 then 2 else if c < 65536 then 3 else 4)"

definition encoded_length :: "pystr \<Rightarrow> nat" where
  "encoded_length s = sum_list (map utf8_size s)"

section \<open>Exceptions\<close>

text \<open>
  An exception is its class and its message (\<^verbatim>\<open>str(exc)\<close>).
\<close>

datatype exn_class =
    BuildEnvironmentException
  | BuildEnvironmentError
  | BuildEnvironmentWarning
  | BuildEnvironmentCreationFailed
  | VersionLockedError
  | ProjectBuildsSkippedError
  | YAMLParseError
  | BuildTimeoutError
  | MkDocsYAMLParseError
  | RepositoryError
  | ProjectConfigurationError
  | DockerException
  | DockerAPIError
  | DockerNotFoundError
  | ConnectionError
  | ReadTimeout
  | HttpClientError
  | OSError
  | TypeError
  | AttributeError
  | OtherException

datatype exn = Exn (exn_type: exn_class) (exn_str: pystr)

text \<open>
  Modelled from the spec: the exception classes are declared in
  \<^verbatim>\<open>doc_builder/exceptions.py\<close>, \<^verbatim>\<open>projects/exceptions.py\<close> and the docker, requests
  and slumber packages, none of which is part of the sources at hand. Section 7 of the
  specification separates the environment-level warning from the structured
  environment-level errors (provisioning failure, lock contention and the other named
  build faults); the table gives the proper ancestors of each class among the classes
  that \<^verbatim>\<open>environments.py\<close> names.
\<close>

fun ancestors :: "exn_class \<Rightarrow> exn_class list" where
  "ancestors BuildEnvironmentError = [BuildEnvironmentException]"
| "ancestors BuildEnvironmentWarning = [BuildEnvironmentException]"
| "ancestors BuildEnvironmentCreationFailed = [BuildEnvironmentError, BuildEnvironmentException]"
| "ancestors VersionLockedError = [BuildEnvironmentError, BuildEnvironmentException]"
| "ancestors ProjectBuildsSkippedError = [BuildEnvironmentError, BuildEnvironmentException]"
| "ancestors YAMLParseError = [BuildEnvironmentError, BuildEnvironmentException]"
| "ancestors BuildTimeoutError = [BuildEnvironmentError, BuildEnvironmentException]"
| "ancestors MkDocsYAMLParseError = [BuildEnvironmentError, BuildEnvironmentException]"
| "ancestors RepositoryError = [BuildEnvironmentError, BuildEnvironmentException]"
| "ancestors ProjectConfigurationError = [BuildEnvironmentError, BuildEnvironmentException]"
| "ancestors DockerAPIError = [DockerException, OSError]"
| "ancestors DockerNotFoundError = [DockerAPIError, DockerException, OSError]"
| "ancestors ConnectionError = [OSError]"
| "ancestors ReadTimeout = [OSError]"
| "ancestors c = []"

text \<open>\<^verbatim>\<open>issubclass(c, d)\<close>, and \<^verbatim>\<open>isinstance(e, d)\<close> (what \<^verbatim>\<open>except d\<close> catches).\<close>

definition issubclass :: "exn_class \<Rightarrow> exn_class \<Rightarrow> bool" where
  "issubclass c d = (c = d \<or> d \<in> set (ancestors c))"

definition isinstance :: "exn \<Rightarrow> exn_class \<Rightarrow> bool" where
  "isinstance e d = issubclass (exn_type e) d"

section \<open>The data model\<close>

text \<open>
  Truth value of an optional string or integer attribute (\<^verbatim>\<open>None\<close>, the empty string
  and zero are false).
\<close>

definition truthy_str :: "pystr option \<Rightarrow> bool" where
  "truthy_str v = (case v of None \<Rightarrow> False | Some x \<Rightarrow> x \<noteq> [])"

definition truthy_int :: "int option \<Rightarrow> bool" where
  "truthy_int v = (case v of None \<Rightarrow> False | Some i \<Rightarrow> i \<noteq> 0)"

text \<open>
  The project, the version and the per-build configuration come from outside the
  module; the records hold the attributes that the module reads.
\<close>

datatype feature = USE_TESTING_BUILD_IMAGE | API_LARGE_DATA

record project =
  pk :: int
  slug :: pystr
  features :: "feature list"
  doc_path :: pystr
  project_container_image :: "pystr option"
  project_container_mem_limit :: "pystr option"
  project_container_time_limit :: "int option"

definition has_feature :: "project \<Rightarrow> feature \<Rightarrow> bool" where
  "has_feature p f = (f \<in> set (features p))"

record version =
  version_pk :: int
  version_slug :: pystr

record config =
  docker_image :: "pystr option"

text \<open>
  The build record is the dictionary of the tracking API's build resource. It always
  has the keys \<^verbatim>\<open>id\<close> and \<^verbatim>\<open>state\<close>, so a build that is not \<^verbatim>\<open>None\<close> is a non-empty
  dictionary and counts as true. The keys \<^verbatim>\<open>builder\<close> and \<^verbatim>\<open>length\<close> (host name and
  elapsed seconds) are not kept.
\<close>

record build =
  build_id :: int
  build_state :: pystr
  build_project :: "int option"
  build_version :: "int option"
  build_success :: "bool option"
  build_exit_code :: "int option"
  build_setup :: "pystr option"
  build_setup_error :: "pystr option"
  build_output :: "pystr option"
  build_error :: "pystr option"

text \<open>
  The names imported from \<^verbatim>\<open>.constants\<close>, \<^verbatim>\<open>readthedocs.builds.constants\<close>,
  \<^verbatim>\<open>.exceptions\<close> and the Django settings are not defined in the module: they are the
  fields of a record that every function takes. \<open>GENERIC_WITH_BUILD_ID\<close> is the message
  template applied to a build id, \<open>status_code\<close> the attribute of a structured failure,
  \<open>slugify\<close> the helper of \<^verbatim>\<open>readthedocs.core.utils\<close>.
\<close>

record constants =
  DOCKER_IMAGE :: pystr
  DOCKER_LIMITS_memory :: "pystr option"
  DOCKER_LIMITS_time :: "int option"
  DOCKER_OOM_EXIT_CODE :: int
  DOCKER_TIMEOUT_EXIT_CODE :: int
  DOCKER_HOSTNAME_MAX_LEN :: nat
  BUILD_STATE_FINISHED :: pystr
  DATA_UPLOAD_MAX_MEMORY_SIZE :: int
  RTD_DOCKER_WORKDIR :: pystr
  RTD_DOCKER_USER :: pystr
  GENERIC_WITH_BUILD_ID :: "int \<Rightarrow> pystr"
  status_code :: "exn \<Rightarrow> int"
  slugify :: "pystr \<Rightarrow> pystr"

text \<open>
  The attributes of a \<^verbatim>\<open>BuildCommand\<close> (and of a \<^verbatim>\<open>DockerBuildCommand\<close>); the
  attributes \<^verbatim>\<open>output\<close>, \<^verbatim>\<open>error\<close> and \<^verbatim>\<open>_environment\<close> are \<open>cmd_output\<close>,
  \<open>cmd_error\<close> and \<open>command_environment\<close>.
\<close>

record command =
  command :: "pystr list"
  shell :: bool
  cwd :: pystr
  user :: pystr
  command_environment :: "pystr \<rightharpoonup> pystr"
  bin_path :: "pystr option"
  description :: pystr
  record_as_success :: bool
  escape_command :: bool
  cmd_output :: "pystr option"
  cmd_error :: "pystr option"
  exit_code :: "int option"

text \<open>
  Modelled from the spec: \<^verbatim>\<open>BuildCommandResultMixin\<close> of \<^verbatim>\<open>readthedocs.builds.models\<close>
  gives a command its \<^verbatim>\<open>successful\<close> and \<^verbatim>\<open>failed\<close> properties and is not part of the
  sources at hand. By section 7 of the specification a command fails on a non-zero
  exit code; it succeeds on exit code zero.
\<close>

definition command_successful :: "command \<Rightarrow> bool" where
  "command_successful c = (exit_code c = Some 0)"

definition command_failed :: "command \<Rightarrow> bool" where
  "command_failed c = (\<not> command_successful c)"

text \<open>The state of a container as \<^verbatim>\<open>inspect_container\<close> reports it; every key may be missing.\<close>

record container_state_info =
  Running :: "bool option"
  ExitCode :: "int option"
  OOMKilled :: "bool option"
  Error :: "pystr option"

text \<open>
  The calls that leave the process: the container engine's client, the host's process
  and file interface, and the tracking API.
\<close>

datatype call =
    Call_APIClient
  | Call_inspect_container "pystr option"
  | Call_remove_container "pystr option"
  | Call_kill "pystr option"
  | Call_create_container pystr pystr "pystr option" "pystr option"
  | Call_start "pystr option"
  | Call_exec_create "pystr option" pystr
  | Call_exec_start pystr
  | Call_exec_inspect pystr
  | Call_Popen "pystr list" bool
  | Call_makedirs pystr
  | Call_command_post pystr "int option" bool
  | Call_build_put build

text \<open>
  What the outside answers is not determined by the module. It is a parameter: a
  deterministic machine over a state \<open>'w\<close>, one transition function for each call,
  which returns the call's result or the exception it raises.
\<close>

record 'w system =
  APIClient :: "'w \<Rightarrow> (exn + unit) \<times> 'w"
  client_inspect_container :: "pystr option \<Rightarrow> 'w \<Rightarrow> (exn + container_state_info) \<times> 'w"
  client_remove_container :: "pystr option \<Rightarrow> 'w \<Rightarrow> (exn + unit) \<times> 'w"
  client_kill :: "pystr option \<Rightarrow> 'w \<Rightarrow> (exn + unit) \<times> 'w"
  client_create_container ::
    "pystr \<Rightarrow> pystr \<Rightarrow> pystr option \<Rightarrow> pystr option \<Rightarrow> 'w \<Rightarrow> (exn + pystr option) \<times> 'w"
  client_start :: "pystr option \<Rightarrow> 'w \<Rightarrow> (exn + unit) \<times> 'w"
  client_exec_create ::
    "pystr option \<Rightarrow> pystr \<Rightarrow> (pystr \<rightharpoonup> pystr) \<Rightarrow> pystr \<Rightarrow> pystr \<Rightarrow> 'w \<Rightarrow> (exn + pystr) \<times> 'w"
  client_exec_start :: "pystr \<Rightarrow> 'w \<Rightarrow> (exn + pybytes) \<times> 'w"
  client_exec_inspect :: "pystr \<Rightarrow> 'w \<Rightarrow> (exn + int option) \<times> 'w"
  subprocess_Popen ::
    "pystr list \<Rightarrow> bool \<Rightarrow> pystr \<Rightarrow> (pystr \<rightharpoonup> pystr) \<Rightarrow> 'w
      \<Rightarrow> (exn + pybytes option \<times> pybytes option \<times> int) \<times> 'w"
  os_environ_PATH :: "'w \<Rightarrow> pystr"
  os_path_exists :: "pystr \<Rightarrow> 'w \<Rightarrow> bool"
  os_makedirs :: "pystr \<Rightarrow> 'w \<Rightarrow> (exn + unit) \<times> 'w"
  api_command_post :: "command \<Rightarrow> bool \<Rightarrow> 'w \<Rightarrow> (exn + unit) \<times> 'w"
  api_build_put :: "build \<Rightarrow> 'w \<Rightarrow> (exn + unit) \<times> 'w"

datatype command_class = BuildCommand | DockerBuildCommand

text \<open>
  The state a method runs in: the attributes of the build environment object (those of
  \<^verbatim>\<open>BaseEnvironment\<close>, \<^verbatim>\<open>BuildEnvironment\<close> and \<^verbatim>\<open>DockerBuildEnvironment\<close>, in this
  order), then the state of the outside and the calls made so far. \<open>client\<close> tells
  whether the engine client has been created; \<open>container\<close> is the \<^verbatim>\<open>Id\<close> of the
  dictionary that \<^verbatim>\<open>create_container\<close> returned. Project and version are always
  present: the methods below read their attributes unconditionally.
\<close>

record 'w state =
  project :: project
  environment :: "pystr \<rightharpoonup> pystr"
  commands :: "command list"
  version :: version
  build :: "build option"
  config :: "config option"
  record_flag :: bool
  update_on_success :: bool
  failure :: "exn option"
  command_class :: command_class
  client :: bool
  container :: "pystr option option"
  container_name :: pystr
  container_image :: pystr
  container_mem_limit :: "pystr option"
  container_time_limit :: "int option"
  world :: 'w
  trace :: "call list"

text \<open>A call is made on the outside's state and appended to the calls made so far.\<close>

definition perform :: "call \<Rightarrow> ('w \<Rightarrow> 'r \<times> 'w) \<Rightarrow> 'w state \<Rightarrow> 'r \<times> 'w state" where
  "perform c f s = (case f (world s) of (r, w) \<Rightarrow> (r, s\<lparr>world := w, trace := trace s @ [c]\<rparr>))"

section \<open>Output sanitization\<close>

text \<open>
  \<^verbatim>\<open>BuildCommand.sanitize_output\<close>. The first argument is the setting
  \<^verbatim>\<open>DATA_UPLOAD_MAX_MEMORY_SIZE\<close>. \<open>decoded\<close> is the body of the \<^verbatim>\<open>try\<close>: decoding with
  replacement, then removal of NUL. An output that is not bytes (\<^verbatim>\<open>None\<close>) has no
  \<^verbatim>\<open>decode\<close>: the handler sets the result to \<^verbatim>\<open>None\<close>, and slicing it afterwards
  raises \<^verbatim>\<open>TypeError\<close>.

  The truncating branch first logs, and the arguments of the log call read
  \<^verbatim>\<open>self.build_env.project.slug\<close>, \<^verbatim>\<open>self.build_env.version.slug\<close> and
  \<^verbatim>\<open>self.build_env.build.get('id')\<close>, in this order. The second argument is what
  these reads need: \<^verbatim>\<open>None\<close> for a command without a build environment, else the
  project, the version and the build record of its environment, each of which may be
  \<^verbatim>\<open>None\<close>. \<open>log_reads\<close> gives the \<^verbatim>\<open>AttributeError\<close> that the first \<^verbatim>\<open>None\<close> on
  the way raises, if there is one. \<open>env_attrs_of\<close> is what a command of a build
  environment in a given state reads.
\<close>

record env_attrs =
  env_project :: "project option"
  env_version :: "version option"
  env_build :: "build option"

definition env_attrs_of :: "'w state \<Rightarrow> env_attrs" where
  "env_attrs_of s =
     \<lparr>env_project = Some (project s), env_version = Some (version s), env_build = build s\<rparr>"

definition log_reads :: "env_attrs option \<Rightarrow> exn option" where
  "log_reads build_env =
     (case build_env of
        None \<Rightarrow>
          Some (Exn AttributeError (py '''NoneType' object has no attribute 'project'' @ [39]))
      | Some env \<Rightarrow>
          (case env_project env of
             None \<Rightarrow>
               Some (Exn AttributeError (py '''NoneType' object has no attribute 'slug'' @ [39]))
           | Some p \<Rightarrow>
               (case env_version env of
                  None \<Rightarrow>
                    Some (Exn AttributeError
                            (py '''NoneType' object has no attribute 'slug'' @ [39]))
                | Some v \<Rightarrow>
                    (case env_build env of
                       None \<Rightarrow>
                         Some (Exn AttributeError
                                 (py '''NoneType' object has no attribute 'get'' @ [39]))
                     | Some b \<Rightarrow> None))))"

definition decoded :: "pybytes \<Rightarrow> pystr" where
  "decoded bs = filter (\<lambda>c. c \<noteq> 0) (utf8_decode (map of_char bs))"

definition truncation_notice :: "int \<Rightarrow> pystr" where
  "truncation_notice allowed_length =
     py ''.. (truncated) ...'' @ [10] @
     py ''Output is too big. Truncated at '' @ str_int allowed_length @ py '' bytes.'' @
     [10, 10, 10]"

definition sanitize_output ::
  "int \<Rightarrow> env_attrs option \<Rightarrow> pybytes option \<Rightarrow> exn + pystr option" where
  "sanitize_output max_memory_size build_env output =
     (let sanitized = map_option decoded output;
          output_length = (case output of None \<Rightarrow> 0 | Some bs \<Rightarrow> int (length bs));
          threshold = 512 * 1024;
          allowed_length = max_memory_size - threshold
      in if output_length > allowed_length then
           (case log_reads build_env of
              Some e \<Rightarrow> Inl e
            | None \<Rightarrow>
                (case sanitized of
                   None \<Rightarrow> Inl (Exn TypeError (py '''NoneType' object is not subscriptable''))
                 | Some s \<Rightarrow>
                     Inr (Some (truncation_notice allowed_length
                                  @ slice_from (- allowed_length) s))))
         else Inr sanitized)"

section \<open>Build environments\<close>

subsection \<open>Construction\<close>

text \<open>
  \<^verbatim>\<open>BuildEnvironment.__init__\<close> over \<^verbatim>\<open>BaseEnvironment.__init__\<close>. The class attributes
  of the Docker variant are given their class-level values here, so that a local build
  environment is a state as well.
\<close>

definition build_env_init ::
  "constants \<Rightarrow> command_class \<Rightarrow> project \<Rightarrow> version \<Rightarrow> build option \<Rightarrow> config option \<Rightarrow> bool
    \<Rightarrow> (pystr \<rightharpoonup> pystr) option \<Rightarrow> bool \<Rightarrow> 'w \<Rightarrow> 'w state" where
  "build_env_init k cls p v b c rec env upd w =
     \<lparr>project = p,
      environment = (case env of None \<Rightarrow> Map.empty | Some e \<Rightarrow> e),
      commands = [],
      version = v, build = b, config = c, record_flag = rec, update_on_success = upd,
      failure = None,
      command_class = cls,
      client = False, container = None, container_name = [],
      container_image = DOCKER_IMAGE k,
      container_mem_limit = DOCKER_LIMITS_memory k,
      container_time_limit = DOCKER_LIMITS_time k,
      world = w, trace = []\<rparr>"

text \<open>
  \<^verbatim>\<open>DockerBuildEnvironment.get_container_name\<close>; \<open>uuid8\<close> is the eight hexadecimal digits
  drawn when there is no build.
\<close>

definition get_container_name :: "constants \<Rightarrow> pystr \<Rightarrow> 'w state \<Rightarrow> pystr" where
  "get_container_name k uuid8 s =
     (let name =
        (case build s of
           Some b \<Rightarrow>
             py ''build-'' @ str_int (build_id b) @ py ''-project-'' @ str_int (pk (project s))
               @ py ''-'' @ slug (project s)
         | None \<Rightarrow>
             py ''sync-'' @ uuid8 @ py ''-project-'' @ str_int (pk (project s))
               @ py ''-'' @ slug (project s))
      in slugify k (take (DOCKER_HOSTNAME_MAX_LEN k) name))"

text \<open>
  \<^verbatim>\<open>DockerBuildEnvironment.__init__\<close>: three independent statements assign the
  image one after the other (\<open>image1\<close>, \<open>image2\<close>, \<open>image3\<close> are the attribute's
  value after each), two more the limits.
\<close>

definition docker_env_init ::
  "constants \<Rightarrow> pystr \<Rightarrow> project \<Rightarrow> version \<Rightarrow> build option \<Rightarrow> config option \<Rightarrow> bool
    \<Rightarrow> (pystr \<rightharpoonup> pystr) option \<Rightarrow> bool \<Rightarrow> 'w \<Rightarrow> 'w state" where
  "docker_env_init k uuid8 p v b c rec env upd w =
     (let s0 = build_env_init k DockerBuildCommand p v b c rec env upd w;
          name = get_container_name k uuid8 s0;
          image0 = container_image s0;
          image1 = (if has_feature (project s0) USE_TESTING_BUILD_IMAGE
                    then py ''readthedocs/build:testing'' else image0);
          image2 = (case config s0 of
                      None \<Rightarrow> image1
                    | Some cf \<Rightarrow>
                        (case docker_image cf of
                           None \<Rightarrow> image1
                         | Some img \<Rightarrow> if img \<noteq> [] then img else image1));
          image3 = (case project_container_image (project s0) of
                      None \<Rightarrow> image2
                    | Some img \<Rightarrow> if img \<noteq> [] then img else image2);
          mem = (if truthy_str (project_container_mem_limit (project s0))
                 then project_container_mem_limit (project s0) else container_mem_limit s0);
          time = (if truthy_int (project_container_time_limit (project s0))
                  then project_container_time_limit (project s0) else container_time_limit s0)
      in s0\<lparr>client := False, container := None, container_name := name,
            container_image := image3, container_mem_limit := mem,
            container_time_limit := time\<rparr>)"

subsection \<open>Verdict\<close>

text \<open>The properties \<^verbatim>\<open>done\<close>, \<^verbatim>\<open>successful\<close> and \<^verbatim>\<open>failed\<close> of \<^verbatim>\<open>BuildEnvironment\<close>.\<close>

definition is_done :: "constants \<Rightarrow> 'w state \<Rightarrow> bool" where
  "is_done k s = (case build s of None \<Rightarrow> False | Some b \<Rightarrow> build_state b = BUILD_STATE_FINISHED k)"

definition successful :: "constants \<Rightarrow> 'w state \<Rightarrow> bool" where
  "successful k s = (is_done k s \<and> failure s = None \<and> list_all command_successful (commands s))"

definition failed :: "constants \<Rightarrow> 'w state \<Rightarrow> bool" where
  "failed k s = (is_done k s \<and> (failure s \<noteq> None \<or> list_ex command_failed (commands s)))"

subsection \<open>Scope exit of a build environment\<close>

text \<open>
  \<^verbatim>\<open>BuildEnvironment.handle_exception\<close>. The argument is the exception that left the
  scope, if any; the result tells whether the method returned \<^verbatim>\<open>True\<close>.
\<close>

definition WARNING_EXCEPTIONS :: "exn_class list" where
  "WARNING_EXCEPTIONS =
     [VersionLockedError, ProjectBuildsSkippedError, YAMLParseError, BuildTimeoutError,
      MkDocsYAMLParseError, RepositoryError, ProjectConfigurationError]"

definition handle_exception :: "exn option \<Rightarrow> 'w state \<Rightarrow> bool \<times> 'w state" where
  "handle_exception exc s =
     (case exc of
        None \<Rightarrow> (False, s)
      | Some exc_value \<Rightarrow>
          (True,
           if issubclass (exn_type exc_value) BuildEnvironmentWarning then s
           else if exn_type exc_value \<in> set WARNING_EXCEPTIONS
           then s\<lparr>failure := Some exc_value\<rparr>
           else s\<lparr>failure := Some exc_value\<rparr>))"

text \<open>
  \<^verbatim>\<open>max\<close> over the exit codes of the commands: comparing \<^verbatim>\<open>None\<close> with anything
  raises \<^verbatim>\<open>TypeError\<close>; a single element is returned as it is.
\<close>

definition py_max :: "int option list \<Rightarrow> exn + int option" where
  "py_max xs =
     (case xs of
        [] \<Rightarrow> Inl (Exn OtherException (py ''max() arg is an empty sequence''))
      | [x] \<Rightarrow> Inr x
      | x # y # ys \<Rightarrow>
          if None \<in> set xs
          then Inl (Exn TypeError (py '''>' not supported between instances of 'NoneType' and 'int'' @ [39]))
          else Inr (Some (fold max (map the (y # ys)) (the x))))"

text \<open>
  \<^verbatim>\<open>BuildEnvironment.update_build\<close>; the argument \<open>st\<close> is the new state of the build.
  \<open>set_build_fields\<close> is the part of the method that fills in the build record and
  replaces a failure that is not of a structured kind, up to the decision whether to
  send the record; it gives the exception that \<^verbatim>\<open>max\<close> raises, if it does.
\<close>

definition set_build_fields ::
  "constants \<Rightarrow> pystr \<Rightarrow> build \<Rightarrow> 'w state \<Rightarrow> exn option \<times> 'w state" where
  "set_build_fields k st b0 s =
     (let b1 = b0\<lparr>build_project := Some (pk (project s)),
                  build_version := Some (version_pk (version s)),
                  build_state := st\<rparr>;
          s1 = s\<lparr>build := Some b1\<rparr>;
          code =
            (if is_done k s1 then
               (case failure s1 of
                  Some f \<Rightarrow>
                    if isinstance f BuildEnvironmentException
                    then Inr (Some (status_code k f))
                    else if commands s1 \<noteq> [] then py_max (map exit_code (commands s1))
                    else Inr (build_exit_code b1)
                | None \<Rightarrow>
                    if commands s1 \<noteq> [] then py_max (map exit_code (commands s1))
                    else Inr (build_exit_code b1))
             else Inr (build_exit_code b1))
      in case code of
           Inl e \<Rightarrow>
             (Some e, s1\<lparr>build := Some (b1\<lparr>build_success := Some (successful k s1)\<rparr>)\<rparr>)
         | Inr ec \<Rightarrow>
             (let b2 = (if is_done k s1
                        then b1\<lparr>build_success := Some (successful k s1),
                                build_exit_code := ec\<rparr>
                        else b1);
                  b3 = b2\<lparr>build_setup := Some [], build_setup_error := Some [],
                           build_output := Some [], build_error := Some []\<rparr>;
                  s3 = s1\<lparr>build := Some b3\<rparr>
              in (None,
                  case failure s3 of
                    None \<Rightarrow> s3
                  | Some f \<Rightarrow>
                      (let f' =
                         (if \<not> (isinstance f BuildEnvironmentException \<or>
                                 isinstance f BuildEnvironmentWarning)
                          then Exn BuildEnvironmentError (GENERIC_WITH_BUILD_ID k (build_id b3))
                          else f)
                       in s3\<lparr>failure := Some f',
                             build := Some (b3\<lparr>build_error := Some (exn_str f')\<rparr>)\<rparr>))))"

definition update_build ::
  "'w system \<Rightarrow> constants \<Rightarrow> pystr \<Rightarrow> 'w state \<Rightarrow> (exn + unit) \<times> 'w state" where
  "update_build sys k st s =
     (if \<not> record_flag s then (Inr (), s)
      else
        (case build s of
           None \<Rightarrow>
             (Inl (Exn TypeError (py '''NoneType' object does not support item assignment'')), s)
         | Some b0 \<Rightarrow>
             (case set_build_fields k st b0 s of
                (Some e, s1) \<Rightarrow> (Inl e, s1)
              | (None, s4) \<Rightarrow>
                  if \<not> is_done k s4 \<or> (is_done k s4 \<and> \<not> successful k s4)
                     \<or> update_on_success s4
                  then
                    (case build s4 of
                       None \<Rightarrow> (Inr (), s4)
                     | Some b4 \<Rightarrow>
                         (case perform (Call_build_put b4) (api_build_put sys b4) s4 of
                            (r, s5) \<Rightarrow> (Inr (), s5)))
                  else (Inr (), s4))))"

text \<open>\<^verbatim>\<open>BuildEnvironment.__exit__\<close>; the result is the value that \<^verbatim>\<open>__exit__\<close> returns.\<close>

definition build_env_exit ::
  "'w system \<Rightarrow> constants \<Rightarrow> exn option \<Rightarrow> 'w state \<Rightarrow> (exn + bool) \<times> 'w state" where
  "build_env_exit sys k exc s =
     (case handle_exception exc s of
        (ret, s1) \<Rightarrow>
          (case update_build sys k (BUILD_STATE_FINISHED k) s1 of
             (Inl e, s2) \<Rightarrow> (Inl e, s2)
           | (Inr u, s2) \<Rightarrow> (Inr ret, s2)))"

subsection \<open>The Docker build environment\<close>

text \<open>\<^verbatim>\<open>get_client\<close>: the client is created on first use and kept.\<close>

definition get_client :: "'w system \<Rightarrow> constants \<Rightarrow> 'w state \<Rightarrow> (exn + unit) \<times> 'w state" where
  "get_client sys k s =
     (if client s then (Inr (), s)
      else
        (case perform Call_APIClient (APIClient sys) s of
           (Inr u, s1) \<Rightarrow> (Inr (), s1\<lparr>client := True\<rparr>)
         | (Inl e, s1) \<Rightarrow>
             if isinstance e DockerException then
               (Inl (Exn BuildEnvironmentError
                      (case build s1 of
                         Some b \<Rightarrow> GENERIC_WITH_BUILD_ID k (build_id b)
                       | None \<Rightarrow> py ''Failed to connect to Docker API client'')), s1)
             else (Inl e, s1)))"

text \<open>The property \<^verbatim>\<open>container_id\<close>.\<close>

definition container_id :: "'w state \<Rightarrow> pystr option" where
  "container_id s =
     (if container_name s \<noteq> [] then Some (container_name s)
      else (case container s of Some c \<Rightarrow> c | None \<Rightarrow> None))"

text \<open>\<^verbatim>\<open>container_state\<close>: \<^verbatim>\<open>None\<close> when the engine answers with an API error.\<close>

definition container_state ::
  "'w system \<Rightarrow> constants \<Rightarrow> 'w state \<Rightarrow> (exn + container_state_info option) \<times> 'w state" where
  "container_state sys k s =
     (case get_client sys k s of
        (Inl e, s1) \<Rightarrow> (Inl e, s1)
      | (Inr u, s1) \<Rightarrow>
          (case perform (Call_inspect_container (container_id s1))
                  (client_inspect_container sys (container_id s1)) s1 of
             (Inr info, s2) \<Rightarrow> (Inr (Some info), s2)
           | (Inl e, s2) \<Rightarrow>
               if isinstance e DockerAPIError then (Inr None, s2) else (Inl e, s2)))"

text \<open>\<^verbatim>\<open>update_build_from_container_state\<close>.\<close>

definition update_build_from_container_state ::
  "'w system \<Rightarrow> constants \<Rightarrow> 'w state \<Rightarrow> (exn + unit) \<times> 'w state" where
  "update_build_from_container_state sys k s =
     (case container_state sys k s of
        (Inl e, s1) \<Rightarrow> (Inl e, s1)
      | (Inr None, s1) \<Rightarrow> (Inr (), s1)
      | (Inr (Some st), s1) \<Rightarrow>
          (Inr (),
           if Running st = Some False then
             (if ExitCode st = Some (DOCKER_TIMEOUT_EXIT_CODE k) then
                s1\<lparr>failure := Some (Exn BuildEnvironmentError (py ''Build exited due to time out''))\<rparr>
              else if OOMKilled st = Some True then
                s1\<lparr>failure := Some (Exn BuildEnvironmentError
                        (py ''Build exited due to excessive memory consumption''))\<rparr>
              else
                (case Error st of
                   None \<Rightarrow> s1
                 | Some msg \<Rightarrow>
                     if msg \<noteq> [] then
                       s1\<lparr>failure := Some (Exn BuildEnvironmentError
                              (py ''Build exited due to unknown error: '' @ msg))\<rparr>
                     else s1))
           else s1))"

text \<open>
  \<^verbatim>\<open>DockerBuildEnvironment.__exit__\<close>. \<open>remove_step\<close> is the second inner \<^verbatim>\<open>try\<close> with
  the assignment after it, \<open>teardown\<close> the body of the outer \<^verbatim>\<open>try\<close>.
\<close>

definition remove_step :: "'w system \<Rightarrow> 'w state \<Rightarrow> (exn + unit) \<times> 'w state" where
  "remove_step sys s =
     (case perform (Call_remove_container (container_id s))
             (client_remove_container sys (container_id s)) s of
        (Inr u, s1) \<Rightarrow> (Inr (), s1\<lparr>container := None\<rparr>)
      | (Inl e, s1) \<Rightarrow>
          if isinstance e DockerNotFoundError then (Inr (), s1\<lparr>container := None\<rparr>)
          else if isinstance e DockerAPIError \<or> isinstance e ConnectionError
                  \<or> isinstance e ReadTimeout
          then (Inr (), s1\<lparr>container := None\<rparr>)
          else (Inl e, s1))"

definition teardown :: "'w system \<Rightarrow> constants \<Rightarrow> 'w state \<Rightarrow> (exn + unit) \<times> 'w state" where
  "teardown sys k s =
     (case update_build_from_container_state sys k s of
        (Inl e, s1) \<Rightarrow> (Inl e, s1)
      | (Inr u, s1) \<Rightarrow>
          (case get_client sys k s1 of
             (Inl e, s2) \<Rightarrow> (Inl e, s2)
           | (Inr u, s2) \<Rightarrow>
               (case perform (Call_kill (container_id s2)) (client_kill sys (container_id s2)) s2 of
                  (Inr u, s3) \<Rightarrow> remove_step sys s3
                | (Inl e, s3) \<Rightarrow>
                    if isinstance e DockerNotFoundError then remove_step sys s3
                    else if isinstance e DockerAPIError then remove_step sys s3
                    else (Inl e, s3))))"

definition docker_env_exit ::
  "'w system \<Rightarrow> constants \<Rightarrow> exn option \<Rightarrow> 'w state \<Rightarrow> (exn + bool) \<times> 'w state" where
  "docker_env_exit sys k exc s =
     (case teardown sys k s of
        (Inr u, s1) \<Rightarrow> build_env_exit sys k exc s1
      | (Inl e, s1) \<Rightarrow>
          if isinstance e BuildEnvironmentError
          then build_env_exit sys k (if exc = None then Some e else exc) s1
          else (Inl e, s1))"

text \<open>
  \<^verbatim>\<open>create_container\<close>. The host configuration (binds and memory limit) is built by a
  helper of the client and handed on; it is part of the engine's create call here.
\<close>

definition creation_error :: "constants \<Rightarrow> exn \<Rightarrow> 'w state \<Rightarrow> exn" where
  "creation_error k e s =
     (if isinstance e ConnectionError then
        (case build s of
           Some b \<Rightarrow> Exn BuildEnvironmentError (GENERIC_WITH_BUILD_ID k (build_id b))
         | None \<Rightarrow> Exn TypeError (py '''NoneType' object is not subscriptable''))
      else if isinstance e DockerAPIError then Exn BuildEnvironmentCreationFailed []
      else e)"

definition sleep_command :: "constants \<Rightarrow> 'w state \<Rightarrow> pystr" where
  "sleep_command k s =
     py ''/bin/sh -c \"sleep '' @
     (case container_time_limit s of None \<Rightarrow> py ''None'' | Some t \<Rightarrow> str_int t) @
     py ''; exit '' @ str_int (DOCKER_TIMEOUT_EXIT_CODE k) @ py ''\"''"

definition create_container :: "'w system \<Rightarrow> constants \<Rightarrow> 'w state \<Rightarrow> (exn + unit) \<times> 'w state" where
  "create_container sys k s =
     (case get_client sys k s of
        (Inl e, s1) \<Rightarrow> (Inl e, s1)
      | (Inr u, s1) \<Rightarrow>
          (case perform
                  (Call_create_container (container_image s1) (sleep_command k s1)
                     (container_id s1) (container_mem_limit s1))
                  (client_create_container sys (container_image s1) (sleep_command k s1)
                     (container_id s1) (container_mem_limit s1)) s1 of
             (Inl e, s2) \<Rightarrow> (Inl (creation_error k e s2), s2)
           | (Inr c, s2) \<Rightarrow>
               (let s3 = s2\<lparr>container := Some c\<rparr> in
                case perform (Call_start (container_id s3)) (client_start sys (container_id s3)) s3 of
                  (Inl e, s4) \<Rightarrow> (Inl (creation_error k e s4), s4)
                | (Inr u, s4) \<Rightarrow> (Inr (), s4))))"

text \<open>The error that the entry raises when a container of the same name is running.\<close>

definition lock_error :: exn where
  "lock_error =
     Exn BuildEnvironmentError (py ''A build environment is currently running for this version'')"

text \<open>
  \<^verbatim>\<open>DockerBuildEnvironment.__enter__\<close>. \<open>stale_check\<close> is the body of the first
  \<^verbatim>\<open>try\<close>, \<open>provision\<close> the statements after it; an exception caught by a handler
  that calls \<^verbatim>\<open>__exit__\<close> is raised again unless \<^verbatim>\<open>__exit__\<close> itself raises.
\<close>

definition stale_check :: "'w system \<Rightarrow> constants \<Rightarrow> 'w state \<Rightarrow> (exn + unit) \<times> 'w state" where
  "stale_check sys k s =
     (case container_state sys k s of
        (Inl e, s1) \<Rightarrow> (Inl e, s1)
      | (Inr None, s1) \<Rightarrow> (Inr (), s1)
      | (Inr (Some st), s1) \<Rightarrow>
          if Running st = Some True then
            (let exc = lock_error;
                 s2 = s1\<lparr>failure := Some exc\<rparr>;
                 s3 = (case build s2 of
                         Some b \<Rightarrow> s2\<lparr>build := Some (b\<lparr>build_state := BUILD_STATE_FINISHED k\<rparr>)\<rparr>
                       | None \<Rightarrow> s2)
             in (Inl exc, s3))
          else
            (case get_client sys k s1 of
               (Inl e, s2) \<Rightarrow> (Inl e, s2)
             | (Inr u, s2) \<Rightarrow>
                 perform (Call_remove_container (container_id s2))
                   (client_remove_container sys (container_id s2)) s2))"

definition exit_and_reraise ::
  "'w system \<Rightarrow> constants \<Rightarrow> exn \<Rightarrow> 'w state \<Rightarrow> (exn + unit) \<times> 'w state" where
  "exit_and_reraise sys k e s =
     (case docker_env_exit sys k (Some e) s of
        (Inl e2, s1) \<Rightarrow> (Inl e2, s1)
      | (Inr ret, s1) \<Rightarrow> (Inl e, s1))"

definition provision :: "'w system \<Rightarrow> constants \<Rightarrow> 'w state \<Rightarrow> (exn + unit) \<times> 'w state" where
  "provision sys k s =
     (case (if \<not> os_path_exists sys (doc_path (project s)) (world s)
            then perform (Call_makedirs (doc_path (project s)))
                   (os_makedirs sys (doc_path (project s))) s
            else (Inr (), s)) of
        (Inl e, s1) \<Rightarrow> (Inl e, s1)
      | (Inr u, s1) \<Rightarrow>
          (case create_container sys k s1 of
             (Inl e, s2) \<Rightarrow> exit_and_reraise sys k e s2
           | (Inr u, s2) \<Rightarrow> (Inr (), s2)))"

definition docker_env_enter :: "'w system \<Rightarrow> constants \<Rightarrow> 'w state \<Rightarrow> (exn + unit) \<times> 'w state" where
  "docker_env_enter sys k s =
     (case stale_check sys k s of
        (Inr u, s1) \<Rightarrow> provision sys k s1
      | (Inl e, s1) \<Rightarrow>
          if isinstance e DockerAPIError \<or> isinstance e ConnectionError then provision sys k s1
          else if isinstance e BuildEnvironmentError then exit_and_reraise sys k e s1
          else (Inl e, s1))"

section \<open>Commands\<close>

text \<open>\<^verbatim>\<open>BuildCommand.get_command\<close>: the argument vector joined by spaces.\<close>

definition get_command :: "command \<Rightarrow> pystr" where
  "get_command c = join [32] (command c)"

text \<open>
  \<^verbatim>\<open>DockerBuildCommand._escape_command\<close> and \<^verbatim>\<open>get_wrapped_command\<close>: every character
  of the class \<^verbatim>\<open>bash_escape_re\<close> gets a backslash in front.
\<close>

definition bash_escape_chars :: "nat list" where
  "bash_escape_chars =
     [9, 32, 33, 34, 35, 36, 38, 39, 40, 41, 42, 58, 59, 60, 62, 63, 64, 91, 92, 93, 94, 96,
      123, 124, 125, 126]"

definition bash_escape :: "pystr \<Rightarrow> pystr" where
  "bash_escape cmd = concat (map (\<lambda>c. if c \<in> set bash_escape_chars then [92, c] else [c]) cmd)"

definition get_wrapped_command :: "command \<Rightarrow> pystr" where
  "get_wrapped_command c =
     (let prefix =
        (case bin_path c of
           None \<Rightarrow> []
         | Some b \<Rightarrow> if b \<noteq> [] then py ''PATH='' @ bash_escape b @ py '':$PATH '' else []);
          cmd = join [32] (map (\<lambda>part. if escape_command c then bash_escape part else part)
                            (command c))
      in py ''/bin/sh -c '' @ [39] @ prefix @ cmd @ [39])"

text \<open>
  \<^verbatim>\<open>BuildCommand.__init__\<close> (\<^verbatim>\<open>DockerBuildCommand.__init__\<close> adds \<open>escape_command\<close>).
  The environment mapping is held by value here; the section on environment-variable
  mappings below treats the sharing of the dictionaries.
\<close>

definition command_init ::
  "constants \<Rightarrow> pystr list \<Rightarrow> pystr option \<Rightarrow> bool \<Rightarrow> (pystr \<rightharpoonup> pystr) \<Rightarrow> pystr option
    \<Rightarrow> pystr option \<Rightarrow> pystr option \<Rightarrow> bool \<Rightarrow> bool \<Rightarrow> exn + command" where
  "command_init k cmd cwd_arg shell_arg env user_arg bin_path_arg description_arg ras esc =
     (if py ''PATH'' \<in> dom env
      then Inl (Exn BuildEnvironmentError (py '''PATH' can't be set. Use bin_path''))
      else Inr \<lparr>command = cmd,
                shell = shell_arg,
                cwd = (if truthy_str cwd_arg then the cwd_arg else RTD_DOCKER_WORKDIR k),
                user = (if truthy_str user_arg then the user_arg else RTD_DOCKER_USER k),
                command_environment = env,
                bin_path = bin_path_arg,
                description = (if truthy_str description_arg then the description_arg else []),
                record_as_success = ras,
                escape_command = esc,
                cmd_output = None, cmd_error = None, exit_code = None\<rparr>)"

text \<open>
  \<^verbatim>\<open>BuildCommand.run\<close>: the process gets a copy of the command's variables without the
  two internal ones and with \<^verbatim>\<open>PATH\<close> set (splitting the host's \<^verbatim>\<open>PATH\<close> at the colons
  and joining it again gives it back, with \<open>bin_path\<close> in front when there is one).
  The process answers with its output, its error stream and its return code.
\<close>

definition process_environment :: "command \<Rightarrow> pystr \<Rightarrow> (pystr \<rightharpoonup> pystr)" where
  "process_environment c host_path =
     ((command_environment c)(py ''DJANGO_SETTINGS_MODULE'' := None, py ''PYTHONPATH'' := None))
       (py ''PATH'' \<mapsto> (case bin_path c of None \<Rightarrow> host_path | Some b \<Rightarrow> b @ [58] @ host_path))"

definition run_local ::
  "'w system \<Rightarrow> constants \<Rightarrow> command \<Rightarrow> 'w state \<Rightarrow> (exn + command) \<times> 'w state" where
  "run_local sys k c s =
     (let environment = process_environment c (os_environ_PATH sys (world s));
          cmd = (if shell c then [get_command c] else command c)
      in case perform (Call_Popen cmd (shell c))
                (subprocess_Popen sys cmd (shell c) (cwd c) environment) s of
           (Inl e, s1) \<Rightarrow>
             if isinstance e OSError then (Inr (c\<lparr>exit_code := Some (- 1)\<rparr>), s1)
             else (Inl e, s1)
         | (Inr (cmd_stdout, cmd_stderr, returncode), s1) \<Rightarrow>
             (case sanitize_output (DATA_UPLOAD_MAX_MEMORY_SIZE k) (Some (env_attrs_of s1)) cmd_stdout of
                Inl e \<Rightarrow> (Inl e, s1)
              | Inr out \<Rightarrow>
                  (case sanitize_output (DATA_UPLOAD_MAX_MEMORY_SIZE k) (Some (env_attrs_of s1)) cmd_stderr of
                     Inl e \<Rightarrow> (Inl e, s1)
                   | Inr err \<Rightarrow>
                       (Inr (c\<lparr>cmd_output := out, cmd_error := err,
                                exit_code := Some returncode\<rparr>), s1))))"

text \<open>
  \<^verbatim>\<open>DockerBuildCommand.run\<close>. \<open>api_error_handler\<close> is the clause
  \<^verbatim>\<open>except DockerAPIError\<close>; any other exception leaves the method.
\<close>

definition memory_notice :: pystr where
  "memory_notice =
     [10, 10] @ py ''Command killed due to excessive memory consumption'' @ [10]"

definition api_error_handler :: "command \<Rightarrow> exn \<Rightarrow> 'w state \<Rightarrow> (exn + command) \<times> 'w state" where
  "api_error_handler c e s =
     (if isinstance e DockerAPIError then
        (Inr (c\<lparr>exit_code := Some (- 1),
                 cmd_output := (if truthy_str (cmd_output c) then cmd_output c
                                else Some (py ''Command exited abnormally''))\<rparr>), s)
      else (Inl e, s))"

definition run_docker ::
  "'w system \<Rightarrow> constants \<Rightarrow> command \<Rightarrow> 'w state \<Rightarrow> (exn + command) \<times> 'w state" where
  "run_docker sys k c s =
     (case get_client sys k s of
        (Inl e, s1) \<Rightarrow> (Inl e, s1)
      | (Inr u, s1) \<Rightarrow>
          (case perform (Call_exec_create (container_id s1) (get_wrapped_command c))
                  (client_exec_create sys (container_id s1) (get_wrapped_command c)
                     (command_environment c) (user c) (cwd c)) s1 of
             (Inl e, s2) \<Rightarrow> api_error_handler c e s2
           | (Inr exec_id, s2) \<Rightarrow>
               (case perform (Call_exec_start exec_id) (client_exec_start sys exec_id) s2 of
                  (Inl e, s3) \<Rightarrow> api_error_handler c e s3
                | (Inr cmd_output_bytes, s3) \<Rightarrow>
                    (case sanitize_output (DATA_UPLOAD_MAX_MEMORY_SIZE k) (Some (env_attrs_of s3))
                            (Some cmd_output_bytes) of
                       Inl e \<Rightarrow> api_error_handler c e s3
                     | Inr out \<Rightarrow>
                         (let c1 = c\<lparr>cmd_output := out\<rparr> in
                          case perform (Call_exec_inspect exec_id)
                                 (client_exec_inspect sys exec_id) s3 of
                            (Inl e, s4) \<Rightarrow> api_error_handler c1 e s4
                          | (Inr code, s4) \<Rightarrow>
                              (let c2 = c1\<lparr>exit_code := code\<rparr> in
                               case cmd_output c2 of
                                 None \<Rightarrow>
                                   api_error_handler c2
                                     (Exn AttributeError
                                        (py '''NoneType' object has no attribute 'splitlines'' @ [39])) s4
                               | Some text \<Rightarrow>
                                   (let killed_in_output =
                                          py_in (py ''Killed'')
                                            (join [10] (slice_from (- 15) (splitlines text)))
                                    in if exit_code c2 = Some (DOCKER_OOM_EXIT_CODE k) \<or>
                                          (exit_code c2 = Some 1 \<and> killed_in_output)
                                       then (Inr (c2\<lparr>cmd_output := Some (text @ memory_notice)\<rparr>),
                                             s4)
                                       else (Inr c2, s4))))))))"

text \<open>
  \<^verbatim>\<open>BuildCommand.save\<close>: the exit code is set to zero before the data is put together
  and posted; \<open>multipart\<close> is the transport for projects with the large-data feature.
  The command is returned as the call leaves it.
\<close>

definition save :: "'w system \<Rightarrow> command \<Rightarrow> 'w state \<Rightarrow> (exn + command) \<times> 'w state" where
  "save sys c s =
     (let c1 = (if record_as_success c then c\<lparr>exit_code := Some 0\<rparr> else c) in
      case build s of
        None \<Rightarrow> (Inl (Exn AttributeError (py '''NoneType' object has no attribute 'get'' @ [39])), s)
      | Some b \<Rightarrow>
          (let multipart = has_feature (project s) API_LARGE_DATA in
           case perform (Call_command_post (get_command c1) (exit_code c1) multipart)
                  (api_command_post sys c1 multipart) s of
             (Inl e, s1) \<Rightarrow> (Inl e, s1)
           | (Inr u, s1) \<Rightarrow> (Inr c1, s1)))"

section \<open>Running a command from an environment\<close>

text \<open>
  The keyword arguments of \<^verbatim>\<open>run\<close> and \<^verbatim>\<open>run_command_class\<close>. \<open>kw_record\<close> is
  \<^verbatim>\<open>None\<close> when the caller does not say; \<open>kw_bin_path\<close> is \<^verbatim>\<open>None\<close> when the key is
  absent; \<open>kw_has_environment\<close> tells whether the caller passed \<^verbatim>\<open>environment\<close>.
\<close>

record run_kwargs =
  kw_record :: "bool option"
  kw_warn_only :: bool
  kw_record_as_success :: bool
  kw_cwd :: "pystr option"
  kw_shell :: bool
  kw_user :: "pystr option"
  kw_bin_path :: "pystr option option"
  kw_description :: "pystr option"
  kw_escape_command :: bool
  kw_has_environment :: bool

text \<open>
  \<^verbatim>\<open>BaseEnvironment.run_command_class\<close> as a build environment runs it:
  \<^verbatim>\<open>record_command\<close> is \<^verbatim>\<open>command.save()\<close> and the attribute \<^verbatim>\<open>record\<close> exists. The
  plain \<^verbatim>\<open>LocalEnvironment\<close>, which records nothing, is not covered.
\<close>

definition run_command ::
  "'w system \<Rightarrow> constants \<Rightarrow> command_class \<Rightarrow> command \<Rightarrow> 'w state
    \<Rightarrow> (exn + command) \<times> 'w state" where
  "run_command sys k cls c s =
     (case cls of BuildCommand \<Rightarrow> run_local sys k c s | DockerBuildCommand \<Rightarrow> run_docker sys k c s)"

definition failure_message :: "command \<Rightarrow> pystr" where
  "failure_message c =
     py ''Command '' @ get_command c @ py '' failed'' @
     (if truthy_str (cmd_output c) then [58, 10] @ the (cmd_output c) else [])"

text \<open>
  The command object that \<^verbatim>\<open>run_command_class\<close> constructs: the shared variables
  without \<^verbatim>\<open>BIN_PATH\<close>, which becomes \<open>bin_path\<close> unless the caller gave one.
\<close>

definition make_command :: "constants \<Rightarrow> pystr list \<Rightarrow> run_kwargs \<Rightarrow> 'w state \<Rightarrow> exn + command" where
  "make_command k cmd kw s =
     (let env_copy = (environment s)(py ''BIN_PATH'' := None);
          env_path = environment s (py ''BIN_PATH'');
          bin_path_arg =
            (case kw_bin_path kw of
               None \<Rightarrow> (if truthy_str env_path then env_path else None)
             | Some b \<Rightarrow> b)
      in if kw_has_environment kw then
           Inl (Exn BuildEnvironmentError (py ''environment can't be passed in via commands.''))
         else
           command_init k cmd (kw_cwd kw) (kw_shell kw) env_copy (kw_user kw) bin_path_arg
             (kw_description kw) (kw_record_as_success kw) (kw_escape_command kw))"

definition run_command_class ::
  "'w system \<Rightarrow> constants \<Rightarrow> command_class \<Rightarrow> pystr list \<Rightarrow> run_kwargs \<Rightarrow> 'w state
    \<Rightarrow> (exn + command) \<times> 'w state" where
  "run_command_class sys k cls cmd kw s =
     (let record0 = (case kw_record kw of None \<Rightarrow> record_flag s | Some r \<Rightarrow> r);
          warn_only0 = (if \<not> record0 then True else kw_warn_only kw);
          recording = (if kw_record_as_success kw then True else record0);
          warn_only = (if kw_record_as_success kw then True else warn_only0)
      in case make_command k cmd kw s of
           Inl e \<Rightarrow> (Inl e, s)
         | Inr build_cmd0 \<Rightarrow>
             (case run_command sys k cls build_cmd0 s of
                (Inl e, s1) \<Rightarrow> (Inl e, s1)
              | (Inr build_cmd1, s1) \<Rightarrow>
                  (case (if recording then
                           (case save sys build_cmd1 s1 of
                              (Inl e, s2) \<Rightarrow> (Inl e, s2)
                            | (Inr c2, s2) \<Rightarrow> (Inr c2, s2\<lparr>commands := commands s2 @ [c2]\<rparr>))
                         else (Inr build_cmd1, s1)) of
                     (Inl e, s3) \<Rightarrow> (Inl e, s3)
                   | (Inr build_cmd, s3) \<Rightarrow>
                       if command_failed build_cmd then
                         (if warn_only then (Inr build_cmd, s3)
                          else (Inl (Exn BuildEnvironmentWarning (failure_message build_cmd)), s3))
                       else (Inr build_cmd, s3))))"

text \<open>\<^verbatim>\<open>BuildEnvironment.run\<close>: the command class is the environment's own.\<close>

definition run ::
  "'w system \<Rightarrow> constants \<Rightarrow> pystr list \<Rightarrow> run_kwargs \<Rightarrow> 'w state \<Rightarrow> (exn + command) \<times> 'w state" where
  "run sys k cmd kw s = run_command_class sys k (command_class s) cmd kw s"

text \<open>The keyword arguments of a call that passes none.\<close>

definition default_kwargs :: run_kwargs where
  "default_kwargs =
     \<lparr>kw_record = None, kw_warn_only = False, kw_record_as_success = False, kw_cwd = None,
      kw_shell = False, kw_user = None, kw_bin_path = None, kw_description = None,
      kw_escape_command = True, kw_has_environment = False\<rparr>"

text \<open>
  A scope \<^verbatim>\<open>with env: ...\<close> over a local build environment whose body runs the given
  commands one after the other: \<^verbatim>\<open>__enter__\<close> returns the environment, the first
  exception ends the body, and the exception is given up when \<^verbatim>\<open>__exit__\<close> returns
  \<^verbatim>\<open>True\<close>.
\<close>

fun run_all ::
  "'w system \<Rightarrow> constants \<Rightarrow> (pystr list \<times> run_kwargs) list \<Rightarrow> 'w state
    \<Rightarrow> exn option \<times> 'w state" where
  "run_all sys k [] s = (None, s)"
| "run_all sys k ((cmd, kw) # rest) s =
     (case run sys k cmd kw s of
        (Inl e, s1) \<Rightarrow> (Some e, s1)
      | (Inr c, s1) \<Rightarrow> run_all sys k rest s1)"

definition with_build_env ::
  "'w system \<Rightarrow> constants \<Rightarrow> (pystr list \<times> run_kwargs) list \<Rightarrow> 'w state
    \<Rightarrow> (exn + unit) \<times> 'w state" where
  "with_build_env sys k body s =
     (case run_all sys k body s of
        (exc, s1) \<Rightarrow>
          (case build_env_exit sys k exc s1 of
             (Inl e, s2) \<Rightarrow> (Inl e, s2)
           | (Inr ret, s2) \<Rightarrow>
               (case exc of
                  None \<Rightarrow> (Inr (), s2)
                | Some e \<Rightarrow> if ret then (Inr (), s2) else (Inl e, s2))))"

text \<open>
  The same scope over a build environment of either class. A local build environment
  has the entry and the exit of \<^verbatim>\<open>BuildEnvironment\<close>; the Docker build environment
  has its own. When the entry raises, the body is not run and the exit is not called.
\<close>

definition env_enter :: "'w system \<Rightarrow> constants \<Rightarrow> 'w state \<Rightarrow> (exn + unit) \<times> 'w state" where
  "env_enter sys k s =
     (case command_class s of
        BuildCommand \<Rightarrow> (Inr (), s)
      | DockerBuildCommand \<Rightarrow> docker_env_enter sys k s)"

definition env_exit ::
  "'w system \<Rightarrow> constants \<Rightarrow> exn option \<Rightarrow> 'w state \<Rightarrow> (exn + bool) \<times> 'w state" where
  "env_exit sys k exc s =
     (case command_class s of
        BuildCommand \<Rightarrow> build_env_exit sys k exc s
      | DockerBuildCommand \<Rightarrow> docker_env_exit sys k exc s)"

definition with_env ::
  "'w system \<Rightarrow> constants \<Rightarrow> (pystr list \<times> run_kwargs) list \<Rightarrow> 'w state
    \<Rightarrow> (exn + unit) \<times> 'w state" where
  "with_env sys k body s =
     (case env_enter sys k s of
        (Inl e, s0) \<Rightarrow> (Inl e, s0)
      | (Inr u, s0) \<Rightarrow>
          (case run_all sys k body s0 of
             (exc, s1) \<Rightarrow>
               (case env_exit sys k exc s1 of
                  (Inl e, s2) \<Rightarrow> (Inl e, s2)
                | (Inr ret, s2) \<Rightarrow>
                    (case exc of
                       None \<Rightarrow> (Inr (), s2)
                     | Some e \<Rightarrow> if ret then (Inr (), s2) else (Inl e, s2)))))"

section \<open>Environment-variable mappings as shared objects\<close>

text \<open>
  The functions above hold a mapping of variables by value. Whether a run changes a
  mapping that its caller still holds depends on which dictionary objects are shared,
  so the statements of the module that touch these dictionaries are embedded once more
  over a store: a dictionary is a list of key-value pairs with distinct keys, the store
  is the list of the dictionaries allocated so far, and a reference is a position in it.
\<close>

type_synonym dict = "(pystr \<times> pystr) list"
type_synonym store = "dict list"

definition deref :: "store \<Rightarrow> nat \<Rightarrow> dict" where
  "deref h a = (if a < length h then h ! a else [])"

definition dict_new :: "store \<Rightarrow> store \<times> nat" where
  "dict_new h = (h @ [[]], length h)"

definition dict_copy :: "store \<Rightarrow> nat \<Rightarrow> store \<times> nat" where
  "dict_copy h a = (h @ [deref h a], length h)"

definition dict_del :: "store \<Rightarrow> nat \<Rightarrow> pystr \<Rightarrow> store" where
  "dict_del h a key = h[a := AList.delete key (deref h a)]"

definition dict_set :: "store \<Rightarrow> nat \<Rightarrow> pystr \<Rightarrow> pystr \<Rightarrow> store" where
  "dict_set h a key v = h[a := AList.update key v (deref h a)]"

text \<open>
  Code outside the module that is handed a dictionary may change that dictionary:
  \<open>ext\<close> is whatever it does to it.
\<close>

definition dict_handed_out :: "(dict \<Rightarrow> dict) \<Rightarrow> store \<Rightarrow> nat \<Rightarrow> store" where
  "dict_handed_out ext h a = h[a := ext (deref h a)]"

text \<open>\<^verbatim>\<open>BaseEnvironment.__init__\<close>: \<^verbatim>\<open>self._environment = environment or {}\<close>.\<close>

definition ref_env_init :: "store \<Rightarrow> nat option \<Rightarrow> store \<times> nat" where
  "ref_env_init h environment_arg =
     (case environment_arg of
        None \<Rightarrow> dict_new h
      | Some a \<Rightarrow> if deref h a \<noteq> [] then (h, a) else dict_new h)"

text \<open>
  \<^verbatim>\<open>BuildCommand.__init__\<close>:
  \<^verbatim>\<open>self._environment = environment.copy() if environment else {}\<close> and the check for
  \<^verbatim>\<open>PATH\<close>. The result is the reference that the command keeps.
\<close>

definition ref_command_init :: "store \<Rightarrow> nat \<Rightarrow> (exn + nat) \<times> store" where
  "ref_command_init h environment_arg =
     (case (if deref h environment_arg \<noteq> [] then dict_copy h environment_arg else dict_new h) of
        (h1, own) \<Rightarrow>
          if py ''PATH'' \<in> fst ` set (deref h1 own)
          then (Inl (Exn BuildEnvironmentError (py '''PATH' can't be set. Use bin_path'')), h1)
          else (Inr own, h1))"

text \<open>
  \<^verbatim>\<open>BuildCommand.run\<close>: the copy that is stripped, given \<^verbatim>\<open>PATH\<close> and handed to the
  process. \<^verbatim>\<open>DockerBuildCommand.run\<close>: the command's own dictionary is handed to the
  engine's client.
\<close>

definition ref_run_local :: "(dict \<Rightarrow> dict) \<Rightarrow> pystr option \<Rightarrow> pystr \<Rightarrow> store \<Rightarrow> nat \<Rightarrow> store" where
  "ref_run_local ext bin_path_attr host_path h own =
     (case dict_copy h own of
        (h1, env) \<Rightarrow>
          (let h2 = (if py ''DJANGO_SETTINGS_MODULE'' \<in> fst ` set (deref h1 env)
                     then dict_del h1 env (py ''DJANGO_SETTINGS_MODULE'') else h1);
               h3 = (if py ''PYTHONPATH'' \<in> fst ` set (deref h2 env)
                     then dict_del h2 env (py ''PYTHONPATH'') else h2);
               h4 = dict_set h3 env (py ''PATH'')
                      (case bin_path_attr of None \<Rightarrow> host_path | Some b \<Rightarrow> b @ [58] @ host_path)
           in dict_handed_out ext h4 env))"

definition ref_run_docker :: "(dict \<Rightarrow> dict) \<Rightarrow> store \<Rightarrow> nat \<Rightarrow> store" where
  "ref_run_docker ext h own = dict_handed_out ext h own"

text \<open>
  \<^verbatim>\<open>run_command_class\<close>: the copy of the shared mapping, the \<^verbatim>\<open>pop\<close> of \<^verbatim>\<open>BIN_PATH\<close>,
  the construction of the command and its run. \<open>shared\<close> is the reference in the
  environment's attribute \<^verbatim>\<open>_environment\<close>.
\<close>

definition ref_run_command_class ::
  "command_class \<Rightarrow> (dict \<Rightarrow> dict) \<Rightarrow> pystr option option \<Rightarrow> pystr \<Rightarrow> store \<Rightarrow> nat
    \<Rightarrow> (exn + nat) \<times> store" where
  "ref_run_command_class cls ext bin_path_kw host_path h shared =
     (case dict_copy h shared of
        (h1, env) \<Rightarrow>
          (let env_path = map_of (deref h1 env) (py ''BIN_PATH'');
               h2 = dict_del h1 env (py ''BIN_PATH'');
               bin_path_arg =
                 (case bin_path_kw of
                    None \<Rightarrow> (if truthy_str env_path then env_path else None)
                  | Some b \<Rightarrow> b)
           in case ref_command_init h2 env of
                (Inl e, h3) \<Rightarrow> (Inl e, h3)
              | (Inr own, h3) \<Rightarrow>
                  (Inr own,
                   case cls of
                     BuildCommand \<Rightarrow> ref_run_local ext bin_path_arg host_path h3 own
                   | DockerBuildCommand \<Rightarrow> ref_run_docker ext h3 own)))"

section \<open>Notions for the properties\<close>

text \<open>The build records put to the tracking API among the calls, in order.\<close>

fun build_puts :: "call list \<Rightarrow> build list" where
  "build_puts [] = []"
| "build_puts (Call_build_put b # cs) = b # build_puts cs"
| "build_puts (c # cs) = build_puts cs"

text \<open>Calls to the outside change the outside, the calls made and the client only.\<close>

definition only_io :: "'w state \<Rightarrow> 'w state \<Rightarrow> bool" where
  "only_io s s' = (s' = s\<lparr>world := world s', trace := trace s', client := client s'\<rparr>)"

text \<open>
  The calls that create a container, and the relation between a state and a later one
  that says that no such call was made in between.
\<close>

fun is_create :: "call \<Rightarrow> bool" where
  "is_create (Call_create_container img cmd nm mem) = True"
| "is_create c = False"

definition no_create_since :: "'w state \<Rightarrow> 'w state \<Rightarrow> bool" where
  "no_create_since s s' = (\<exists>t. trace s' = trace s @ t \<and> \<not> list_ex is_create t)"

text \<open>
  What the calls to the container engine, to the host and to the command resource of
  the tracking API leave as it is: the attributes of the environment other than the
  failure, the client and the container, and the build records put so far.
\<close>

definition engine_only :: "'w state \<Rightarrow> 'w state \<Rightarrow> bool" where
  "engine_only s s' =
     (project s' = project s \<and> environment s' = environment s \<and> commands s' = commands s \<and>
      version s' = version s \<and> build s' = build s \<and> config s' = config s \<and>
      record_flag s' = record_flag s \<and> update_on_success s' = update_on_success s \<and>
      command_class s' = command_class s \<and>
      build_puts (trace s') = build_puts (trace s))"

section \<open>Example values\<close>

text \<open>
  Concrete constants, a project, a version and a build record, and an outside in which
  every call succeeds: the engine reports a running container, a process prints
  nothing and returns the next return code of a list that is the outside's state.
\<close>

definition example_constants :: constants where
  "example_constants =
     \<lparr>DOCKER_IMAGE = py ''readthedocs/build:latest'',
      DOCKER_LIMITS_memory = Some (py ''200m''),
      DOCKER_LIMITS_time = Some 600,
      DOCKER_OOM_EXIT_CODE = 137,
      DOCKER_TIMEOUT_EXIT_CODE = 42,
      DOCKER_HOSTNAME_MAX_LEN = 64,
      BUILD_STATE_FINISHED = py ''finished'',
      DATA_UPLOAD_MAX_MEMORY_SIZE = 2621440,
      RTD_DOCKER_WORKDIR = py ''/tmp'',
      RTD_DOCKER_USER = py ''docs:docs'',
      GENERIC_WITH_BUILD_ID = (\<lambda>i. py ''There was a problem with build '' @ str_int i),
      status_code = (\<lambda>e. 1),
      slugify = (\<lambda>n. n)\<rparr>"

definition example_project :: project where
  "example_project =
     \<lparr>pk = 7, slug = py ''docs'', features = [], doc_path = py ''/builds/docs'',
      project_container_image = None, project_container_mem_limit = None,
      project_container_time_limit = None\<rparr>"

definition example_version :: version where
  "example_version = \<lparr>version_pk = 3, version_slug = py ''latest''\<rparr>"

definition example_build :: build where
  "example_build =
     \<lparr>build_id = 1, build_state = py ''building'', build_project = None, build_version = None,
      build_success = None, build_exit_code = None, build_setup = None,
      build_setup_error = None, build_output = None, build_error = None\<rparr>"

definition running_container :: container_state_info where
  "running_container =
     \<lparr>Running = Some True, ExitCode = Some 0, OOMKilled = Some False, Error = Some []\<rparr>"

definition example_system :: "int list system" where
  "example_system =
     \<lparr>APIClient = (\<lambda>w. (Inr (), w)),
      client_inspect_container = (\<lambda>cid w. (Inr running_container, w)),
      client_remove_container = (\<lambda>cid w. (Inr (), w)),
      client_kill = (\<lambda>cid w. (Inr (), w)),
      client_create_container = (\<lambda>img cmd name mem w. (Inr name, w)),
      client_start = (\<lambda>cid w. (Inr (), w)),
      client_exec_create = (\<lambda>cid cmd env usr dir w. (Inr (py ''exec-1''), w)),
      client_exec_start = (\<lambda>eid w. (Inr [], w)),
      client_exec_inspect =
        (\<lambda>eid w. (Inr (Some (case w of [] \<Rightarrow> 0 | rc # rest \<Rightarrow> rc)), tl w)),
      subprocess_Popen =
        (\<lambda>cmd sh dir env w. (Inr (Some [], None, (case w of [] \<Rightarrow> 0 | rc # rest \<Rightarrow> rc)), tl w)),
      os_environ_PATH = (\<lambda>w. py ''/usr/bin''),
      os_path_exists = (\<lambda>path w. True),
      os_makedirs = (\<lambda>path w. (Inr (), w)),
      api_command_post = (\<lambda>c multipart w. (Inr (), w)),
      api_build_put = (\<lambda>b w. (Inr (), w))\<rparr>"

definition example_local_env :: "int list \<Rightarrow> int list state" where
  "example_local_env w =
     build_env_init example_constants BuildCommand example_project example_version
       (Some example_build) None True None True w"

definition example_docker_env :: "int list \<Rightarrow> int list state" where
  "example_docker_env w =
     docker_env_init example_constants [] example_project example_version
       (Some example_build) None True None True w"

definition example_finished_env :: "int list state" where
  "example_finished_env =
     (example_local_env [])
       \<lparr>commands :=
          [\<lparr>command = [py ''true''], shell = False, cwd = py ''/tmp'', user = py ''docs:docs'',
            command_environment = Map.empty, bin_path = None, description = [],
            record_as_success = False, escape_command = True, cmd_output = Some [],
            cmd_error = None, exit_code = Some 0\<rparr>,
           \<lparr>command = [py ''false''], shell = False, cwd = py ''/tmp'', user = py ''docs:docs'',
            command_environment = Map.empty, bin_path = None, description = [],
            record_as_success = False, escape_command = True, cmd_output = Some [],
            cmd_error = None, exit_code = Some 2\<rparr>],
        build := Some (example_build\<lparr>build_state := py ''finished''\<rparr>)\<rparr>"

definition testing_project :: project where
  "testing_project = example_project\<lparr>features := [USE_TESTING_BUILD_IMAGE]\<rparr>"

definition custom_config :: config where
  "custom_config = \<lparr>docker_image = Some (py ''readthedocs/build:7.0'')\<rparr>"

text \<open>An engine whose container has stopped with the timeout sentinel as its exit code.\<close>

definition timed_out_container :: container_state_info where
  "timed_out_container =
     \<lparr>Running = Some False, ExitCode = Some 42, OOMKilled = Some False, Error = Some []\<rparr>"

definition timed_out_system :: "int list system" where
  "timed_out_system =
     example_system\<lparr>client_inspect_container := (\<lambda>cid w. (Inr timed_out_container, w))\<rparr>"

definition earlier_failure :: exn where
  "earlier_failure = Exn BuildEnvironmentError (py ''earlier failure'')"



text \<open>A store with one dictionary, the caller's mapping of variables.\<close>

definition example_store :: store where
  "example_store = [[(py ''BIN_PATH'', py ''/opt/bin''), (py ''PYTHONPATH'', py ''/src'')]]"

text \<open>A run that forces success although the caller asks for no record.\<close>

definition forced_success_kwargs :: run_kwargs where
  "forced_success_kwargs =
     default_kwargs\<lparr>kw_record := Some False, kw_warn_only := False,
                    kw_record_as_success := True\<rparr>"

definition false_command :: command where
  "false_command =
     \<lparr>command = [py ''false''], shell = False, cwd = py ''/tmp'', user = py ''docs:docs'',
      command_environment = Map.empty, bin_path = None, description = [],
      record_as_success = True, escape_command = True,
      cmd_output = None, cmd_error = None, exit_code = None\<rparr>"

text \<open>An outside whose processes return 2 for \<^verbatim>\<open>false\<close> and 0 for every other command.\<close>

definition true_false_system :: "int list system" where
  "true_false_system =
     example_system\<lparr>subprocess_Popen :=
       (\<lambda>cmd sh dir env w. (Inr (Some [], None, if cmd = [py ''false''] then 2 else 0), w))\<rparr>"

definition two_commands :: "(pystr list \<times> run_kwargs) list" where
  "two_commands = [([py ''true''], default_kwargs), ([py ''false''], default_kwargs)]"

text \<open>
  An engine that loses the connection when asked to kill the container, and one that
  loses it when asked to remove the container.
\<close>

definition lost_connection :: exn where
  "lost_connection = Exn ConnectionError (py ''Connection aborted.'')"

definition lost_connection_system :: "int list system" where
  "lost_connection_system = example_system\<lparr>client_kill := (\<lambda>cid w. (Inl lost_connection, w))\<rparr>"

definition failing_remove_system :: "int list system" where
  "failing_remove_system =
     example_system\<lparr>client_remove_container := (\<lambda>cid w. (Inl lost_connection, w))\<rparr>"

text \<open>What a command of the example environment reads of it when it logs.\<close>

definition example_env_attrs :: env_attrs where
  "example_env_attrs =
     \<lparr>env_project = Some example_project, env_version = Some example_version,
      env_build = Some example_build\<rparr>"

text \<open>
  Eleven bytes of the letter \<^verbatim>\<open>a\<close>, and six times the two bytes that encode
  \<^verbatim>\<open>U+00E9\<close>.
\<close>

definition eleven_letters :: pybytes where
  "eleven_letters = ''aaaaaaaaaaa''"

definition six_accented_letters :: pybytes where
  "six_accented_letters =
     [CHR 0xC3, CHR 0xA9, CHR 0xC3, CHR 0xA9, CHR 0xC3, CHR 0xA9,
      CHR 0xC3, CHR 0xA9, CHR 0xC3, CHR 0xA9, CHR 0xC3, CHR 0xA9]"

text \<open>
  The command object that a run with no keyword arguments constructs from an
  environment without variables, under the example constants.
\<close>

definition default_command :: "pystr list \<Rightarrow> command" where
  "default_command cmd =
     \<lparr>command = cmd, shell = False, cwd = py ''/tmp'', user = py ''docs:docs'',
      command_environment = Map.empty, bin_path = None, description = [],
      record_as_success = False, escape_command = True,
      cmd_output = None, cmd_error = None, exit_code = None\<rparr>"

section \<open>Properties of output sanitization\<close>

lemma str_nat_digits: "set (str_nat n) \<subseteq> {48..57}"
proof (induction n rule: str_nat.induct)
  case (1 n)
  show ?case
  proof (cases "n < 10")
    case True
    then show ?thesis by (subst str_nat.simps) auto
  next
    case False
    have "n mod 10 < 10" by simp
    then have "48 + n mod 10 \<in> {48..57}" by auto
    with False 1 show ?thesis by (subst str_nat.simps) auto
  qed
qed

lemma str_int_no_nul: "0 \<notin> set (str_int i)"
  using str_nat_digits [of "nat i"] str_nat_digits [of "nat (- i)"]
  by (auto simp: str_int_def)

lemma truncation_notice_no_nul: "0 \<notin> set (truncation_notice n)"
  using str_int_no_nul [of n] by (simp add: truncation_notice_def py_def)

lemma decoded_no_nul: "0 \<notin> set (decoded bs)"
  by (simp add: decoded_def)

lemma slice_from_suffix: "suffix (slice_from i xs) xs"
  by (simp add: slice_from_def suffix_drop)

lemma slice_from_last:
  "0 < n \<Longrightarrow> slice_from (- n) xs = drop (length xs - nat n) xs"
  by (simp add: slice_from_def nat_diff_distrib')

lemma encoded_length_ascii: "\<forall>c \<in> set s. c < 128 \<Longrightarrow> encoded_length s = length s"
  by (induction s) (simp_all add: encoded_length_def utf8_size_def)

text \<open>
  Claim C4, as amended. Let a byte sequence be sanitized by a command whose log entry
  can be written (it has a build environment with a project, a version and a build
  record) whenever the sequence has more bytes than the ceiling (the setting minus
  512 KiB). Then there is a result and it has no NUL. When the input
  has more bytes than the ceiling, the result is the truncation notice, which names the
  ceiling as the number of bytes, followed by a tail of the decoded text; for a positive
  ceiling and a decoded text of one-byte characters that tail has as many bytes as the
  ceiling, or as the whole text when that is less. Otherwise the result is the decoded
  text. The notice comes on top of the kept tail.
\<close>

theorem sanitize_output_truncates_tail:
  assumes bd: "m - 524288 < int (length bs) \<longrightarrow> log_reads build_env = None"
  shows "\<exists>r. sanitize_output m build_env (Some bs) = Inr (Some r) \<and> 0 \<notin> set r \<and>
     (if m - 524288 < int (length bs)
      then \<exists>kept.
             r = py ''.. (truncated) ...'' @ [10] @
                 py ''Output is too big. Truncated at '' @ str_int (m - 524288) @
                 py '' bytes.'' @ [10, 10, 10] @ kept \<and>
             suffix kept (decoded bs) \<and>
             (0 < m - 524288 \<and> (\<forall>c \<in> set (decoded bs). c < 128) \<longrightarrow>
                int (encoded_length kept)
                  = min (int (encoded_length (decoded bs))) (m - 524288))
      else r = decoded bs)"
proof (cases "m - 524288 < int (length bs)")
  case True
  let ?kept = "slice_from (- (m - 524288)) (decoded bs)"
  from True bd have b: "log_reads build_env = None" by blast
  have res: "sanitize_output m build_env (Some bs)
      = Inr (Some (truncation_notice (m - 524288) @ ?kept))"
    using True b by (simp add: sanitize_output_def)
  have notice: "truncation_notice (m - 524288) @ ?kept =
      py ''.. (truncated) ...'' @ [10] @
      py ''Output is too big. Truncated at '' @ str_int (m - 524288) @
      py '' bytes.'' @ [10, 10, 10] @ ?kept"
    by (simp add: truncation_notice_def)
  have suf: "suffix ?kept (decoded bs)"
    by (rule slice_from_suffix)
  then have "set ?kept \<subseteq> set (decoded bs)"
    by (rule set_mono_suffix)
  then have nonul: "0 \<notin> set (truncation_notice (m - 524288) @ ?kept)"
    using decoded_no_nul [of bs] truncation_notice_no_nul [of "m - 524288"] by auto
  have bytes: "int (encoded_length ?kept) = min (int (encoded_length (decoded bs))) (m - 524288)"
    if p: "0 < m - 524288" and a: "\<forall>c \<in> set (decoded bs). c < 128"
  proof -
    have eq: "?kept = drop (length (decoded bs) - nat (m - 524288)) (decoded bs)"
      using p by (rule slice_from_last)
    have "\<forall>c \<in> set ?kept. c < 128"
      using a \<open>set ?kept \<subseteq> set (decoded bs)\<close> by blast
    then have "encoded_length ?kept = length ?kept"
      by (rule encoded_length_ascii)
    moreover have "encoded_length (decoded bs) = length (decoded bs)"
      using a by (rule encoded_length_ascii)
    moreover have "int (length ?kept) = min (int (length (decoded bs))) (m - 524288)"
      using p by (subst eq) auto
    ultimately show ?thesis by simp
  qed
  show ?thesis
    using True res notice suf nonul bytes
    by (intro exI [of _ "truncation_notice (m - 524288) @ ?kept"])
       (simp only: if_True simp_thms, intro conjI exI [of _ ?kept], simp_all)
next
  case False
  then have "sanitize_output m build_env (Some bs) = Inr (Some (decoded bs))"
    by (simp add: sanitize_output_def)
  with False decoded_no_nul [of bs] show ?thesis by simp
qed

theorem sanitize_output_truncates_tail_witness:
  "524298 - 524288 < int (length eleven_letters) \<and> log_reads (Some example_env_attrs) = None \<and>
   (0::int) < 524298 - 524288 \<and>
   list_all (\<lambda>c. c < 128) (decoded eleven_letters) \<and>
   (\<exists>kept. sanitize_output 524298 (Some example_env_attrs) (Some eleven_letters)
              = Inr (Some (py ''.. (truncated) ...'' @ [10] @
                           py ''Output is too big. Truncated at 10 bytes.'' @ [10, 10, 10] @
                           kept)) \<and>
           suffix kept (py ''aaaaaaaaaaa'') \<and> encoded_length kept = 10)"
  using sanitize_output_truncates_tail [of 524298 eleven_letters "Some example_env_attrs"]
  by (auto simp: log_reads_def example_env_attrs_def
      eleven_letters_def decoded_def py_def str_int_def str_nat.simps [of 10]
      str_nat.simps [of "Suc 0"] encoded_length_def utf8_size_def)

text \<open>
  Claim C4 as stated fails: with a ceiling of 10 bytes and an input of 11 bytes the
  result has 73 bytes once encoded, since the notice is put in front of the 10 bytes
  that are kept.
\<close>

theorem sanitize_output_exceeds_ceiling:
  "sanitize_output 524298 (Some example_env_attrs) (Some eleven_letters)
     = Inr (Some (py ''.. (truncated) ...'' @ [10] @
                  py ''Output is too big. Truncated at 10 bytes.'' @ [10, 10, 10] @
                  py ''aaaaaaaaaa'')) \<and>
   encoded_length (py ''.. (truncated) ...'' @ [10] @
                  py ''Output is too big. Truncated at 10 bytes.'' @ [10, 10, 10] @
                  py ''aaaaaaaaaa'') = 73 \<and>
   \<not> encoded_length (py ''.. (truncated) ...'' @ [10] @
                  py ''Output is too big. Truncated at 10 bytes.'' @ [10, 10, 10] @
                  py ''aaaaaaaaaa'') \<le> 10"
  by (simp add: sanitize_output_def log_reads_def example_env_attrs_def
      decoded_def slice_from_def py_def truncation_notice_def
      eleven_letters_def
      str_int_def str_nat.simps [of 10] str_nat.simps [of "Suc 0"] encoded_length_def utf8_size_def)

text \<open>
  The truncating branch reads the build record for its log entry: a command of an
  environment without a build record, or without a build environment, raises there.
\<close>

lemma sanitize_output_without_build:
  "sanitize_output 524298 (Some (example_env_attrs\<lparr>env_build := None\<rparr>)) (Some eleven_letters)
     = Inl (Exn AttributeError (py '''NoneType' object has no attribute 'get'' @ [39])) \<and>
   sanitize_output 524298 None (Some eleven_letters)
     = Inl (Exn AttributeError (py '''NoneType' object has no attribute 'project'' @ [39]))"
  by (simp add: sanitize_output_def log_reads_def example_env_attrs_def eleven_letters_def)

text \<open>
  The tail is cut by counting characters of the decoded text: of twelve bytes that
  encode six characters, all six are kept under a ceiling of 10.
\<close>

lemma sanitize_output_cuts_characters:
  "sanitize_output 524298 (Some example_env_attrs) (Some six_accented_letters)
     = Inr (Some (py ''.. (truncated) ...'' @ [10] @
                  py ''Output is too big. Truncated at 10 bytes.'' @ [10, 10, 10] @
                  [233, 233, 233, 233, 233, 233])) \<and>
   encoded_length [233, 233, 233, 233, 233, 233] = 12"
  by (simp add: sanitize_output_def log_reads_def example_env_attrs_def
      decoded_def slice_from_def py_def truncation_notice_def
      six_accented_letters_def is_cont_def second_ok_def
      str_int_def str_nat.simps [of 10] str_nat.simps [of "Suc 0"] encoded_length_def utf8_size_def)

text \<open>
  With a ceiling of zero the slice \<^verbatim>\<open>sanitized[-0:]\<close> is the whole text: all eleven
  letters are kept.
\<close>

lemma sanitize_output_zero_ceiling:
  "sanitize_output 524288 (Some example_env_attrs) (Some eleven_letters)
     = Inr (Some (py ''.. (truncated) ...'' @ [10] @
                  py ''Output is too big. Truncated at 0 bytes.'' @ [10, 10, 10] @
                  py ''aaaaaaaaaaa''))"
  by (simp add: sanitize_output_def log_reads_def example_env_attrs_def
      decoded_def slice_from_def py_def truncation_notice_def eleven_letters_def
      str_int_def str_nat.simps [of 0])

section \<open>The verdict of a build environment\<close>

text \<open>
  Claim C6. For every state of a build environment whose commands all have an exit
  code: \<open>successful\<close> and \<open>failed\<close> are never both true; both are false while the build
  record is not in the finished state; exactly one of them is true once it is; and
  \<open>successful\<close> holds exactly when the record is finished, no failure is stored and
  every recorded command exited with code zero.
\<close>

theorem verdict_exclusive:
  assumes "list_all (\<lambda>c. exit_code c \<noteq> None) (commands s)"
  shows "\<not> (successful k s \<and> failed k s) \<and>
         (\<not> is_done k s \<longrightarrow> \<not> successful k s \<and> \<not> failed k s) \<and>
         (is_done k s \<longrightarrow> successful k s \<noteq> failed k s) \<and>
         (successful k s \<longleftrightarrow>
            is_done k s \<and> failure s = None \<and> (\<forall>c \<in> set (commands s). exit_code c = Some 0))"
proof -
  have ex: "list_ex command_failed (commands s) = (\<not> list_all command_successful (commands s))"
    by (simp add: list_ex_iff list_all_iff command_failed_def)
  have al: "list_all command_successful (commands s)
      = (\<forall>c \<in> set (commands s). exit_code c = Some 0)"
    by (simp add: list_all_iff command_successful_def)
  show ?thesis
    unfolding successful_def failed_def ex al by blast
qed

theorem verdict_exclusive_witness:
  "list_all (\<lambda>c. exit_code c \<noteq> None) (commands example_finished_env) \<and>
   is_done example_constants example_finished_env \<and>
   failed example_constants example_finished_env \<and>
   \<not> successful example_constants example_finished_env"
proof -
  have h: "list_all (\<lambda>c. exit_code c \<noteq> None) (commands example_finished_env)"
    by (simp add: example_finished_env_def)
  have d: "is_done example_constants example_finished_env"
    by (simp add: is_done_def example_finished_env_def example_constants_def)
  have n: "\<not> successful example_constants example_finished_env"
    by (simp add: successful_def command_successful_def example_finished_env_def)
  from verdict_exclusive [OF h, of example_constants] d n h show ?thesis by blast
qed

section \<open>The image and the limits of a Docker build environment\<close>

text \<open>
  Claim C2, as amended. The statements of the constructor run one after the other, so
  the last one that applies wins: the image is the project's manual override when
  there is one, else the image of the per-build configuration when there is one, else
  the testing image when the project has the feature flag, else the default. The
  memory and the time limit are the project's when set, else the defaults.
\<close>

theorem docker_env_init_precedence:
  "let s = docker_env_init k u p v b c r e upd w;
       proj = project_container_image p;
       conf = (case c of None \<Rightarrow> None | Some cf \<Rightarrow> docker_image cf)
   in (truthy_str proj \<longrightarrow> Some (container_image s) = proj) \<and>
      (\<not> truthy_str proj \<and> truthy_str conf \<longrightarrow> Some (container_image s) = conf) \<and>
      (\<not> truthy_str proj \<and> \<not> truthy_str conf \<and> has_feature p USE_TESTING_BUILD_IMAGE \<longrightarrow>
         container_image s = py ''readthedocs/build:testing'') \<and>
      (\<not> truthy_str proj \<and> \<not> truthy_str conf \<and> \<not> has_feature p USE_TESTING_BUILD_IMAGE \<longrightarrow>
         container_image s = DOCKER_IMAGE k) \<and>
      container_mem_limit s =
        (if truthy_str (project_container_mem_limit p) then project_container_mem_limit p
         else DOCKER_LIMITS_memory k) \<and>
      container_time_limit s =
        (if truthy_int (project_container_time_limit p) then project_container_time_limit p
         else DOCKER_LIMITS_time k)"
  by (simp add: docker_env_init_def build_env_init_def Let_def truthy_str_def split: option.splits)

theorem docker_env_init_precedence_witness:
  "container_image (docker_env_init example_constants []
       (testing_project\<lparr>project_container_image := Some (py ''custom/image'')\<rparr>) example_version
       (Some example_build) (Some custom_config) True None True (0::nat))
     = py ''custom/image'' \<and>
   container_image (docker_env_init example_constants [] testing_project example_version
       (Some example_build) (Some custom_config) True None True (0::nat))
     = py ''readthedocs/build:7.0'' \<and>
   container_image (docker_env_init example_constants [] testing_project example_version
       (Some example_build) None True None True (0::nat))
     = py ''readthedocs/build:testing'' \<and>
   container_image (docker_env_init example_constants [] example_project example_version
       (Some example_build) None True None True (0::nat))
     = py ''readthedocs/build:latest''"
  using docker_env_init_precedence [of example_constants "[]"
       "testing_project\<lparr>project_container_image := Some (py ''custom/image'')\<rparr>" example_version
       "Some example_build" "Some custom_config" True None True "0::nat"]
    docker_env_init_precedence [of example_constants "[]" testing_project example_version
       "Some example_build" "Some custom_config" True None True "0::nat"]
    docker_env_init_precedence [of example_constants "[]" testing_project example_version
       "Some example_build" None True None True "0::nat"]
    docker_env_init_precedence [of example_constants "[]" example_project example_version
       "Some example_build" None True None True "0::nat"]
  by (simp add: Let_def truthy_str_def testing_project_def custom_config_def example_project_def
      has_feature_def example_constants_def py_def)

text \<open>
  Claim C2 as stated fails: for a project with the testing-image feature flag and a
  per-build configuration that names an image, the environment gets the configured
  image, not the testing image; and a project's manual override wins over the
  configuration.
\<close>

theorem docker_env_init_testing_flag_overridden:
  "has_feature testing_project USE_TESTING_BUILD_IMAGE \<and>
   container_image (docker_env_init example_constants [] testing_project example_version
       (Some example_build) (Some custom_config) True None True (0::nat))
     = py ''readthedocs/build:7.0'' \<and>
   container_image (docker_env_init example_constants [] testing_project example_version
       (Some example_build) (Some custom_config) True None True (0::nat))
     \<noteq> py ''readthedocs/build:testing'' \<and>
   container_image (docker_env_init example_constants []
       (example_project\<lparr>project_container_image := Some (py ''custom/image'')\<rparr>) example_version
       (Some example_build) (Some custom_config) True None True (0::nat))
     = py ''custom/image''"
  by (simp add: docker_env_init_def build_env_init_def Let_def testing_project_def
      custom_config_def example_project_def has_feature_def example_constants_def py_def)

section \<open>Reconciliation with the container's state\<close>

lemma perform_failure [simp]: "failure (snd (perform c f s)) = failure s"
  by (simp add: perform_def split: prod.splits)

lemma get_client_failure [simp]: "failure (snd (get_client sys k s)) = failure s"
  by (auto simp: get_client_def perform_def split: prod.splits sum.splits)

lemma container_state_failure [simp]: "failure (snd (container_state sys k s)) = failure s"
proof -
  obtain r s1 where g: "get_client sys k s = (r, s1)" by (cases "get_client sys k s")
  then have f1: "failure s1 = failure s" using get_client_failure [of sys k s] by simp
  show ?thesis
    using g f1 by (auto simp: container_state_def perform_def split: prod.splits sum.splits)
qed

text \<open>
  Claim C1, as amended. The reconciliation step sets the stored failure from the state
  that the container reports whenever the container is reported as not running and has
  the timeout sentinel as exit code, or else the OOM flag, or else a non-empty engine
  error string: whether or not a failure was stored before. In every other case (no
  state, not reported as stopped, none of the three causes, or an exception out of the
  query) the stored failure is left as it was.
\<close>

theorem reconciliation_overwrites_failure:
  "failure (snd (update_build_from_container_state sys k s)) =
     (case fst (container_state sys k s) of
        Inr (Some st) \<Rightarrow>
          if Running st = Some False then
            (if ExitCode st = Some (DOCKER_TIMEOUT_EXIT_CODE k)
             then Some (Exn BuildEnvironmentError (py ''Build exited due to time out''))
             else if OOMKilled st = Some True
             then Some (Exn BuildEnvironmentError
                          (py ''Build exited due to excessive memory consumption''))
             else if truthy_str (Error st)
             then Some (Exn BuildEnvironmentError
                          (py ''Build exited due to unknown error: '' @ the (Error st)))
             else failure s)
          else failure s
      | Inr None \<Rightarrow> failure s
      | Inl e \<Rightarrow> failure s)"
proof -
  obtain r s1 where c: "container_state sys k s = (r, s1)" by (cases "container_state sys k s")
  then have f1: "failure s1 = failure s" using container_state_failure [of sys k s] by simp
  show ?thesis
    using c f1
    by (auto simp: update_build_from_container_state_def truthy_str_def
        split: sum.splits option.splits)
qed

theorem reconciliation_overwrites_failure_witness:
  "failure (snd (update_build_from_container_state timed_out_system example_constants
       ((example_docker_env [])\<lparr>failure := Some earlier_failure\<rparr>)))
     = Some (Exn BuildEnvironmentError (py ''Build exited due to time out'')) \<and>
   failure (snd (update_build_from_container_state example_system example_constants
       ((example_docker_env [])\<lparr>failure := Some earlier_failure\<rparr>)))
     = Some earlier_failure"
  using reconciliation_overwrites_failure [of timed_out_system example_constants
       "(example_docker_env [])\<lparr>failure := Some earlier_failure\<rparr>"]
    reconciliation_overwrites_failure [of example_system example_constants
       "(example_docker_env [])\<lparr>failure := Some earlier_failure\<rparr>"]
  by (simp add: container_state_def get_client_def perform_def timed_out_system_def
      example_system_def timed_out_container_def running_container_def example_constants_def
      example_docker_env_def docker_env_init_def build_env_init_def Let_def isinstance_def)

text \<open>
  Claim C1 as stated fails: a failure that is already stored is replaced when the
  container has stopped with the timeout sentinel.
\<close>

theorem reconciliation_replaces_stored_failure:
  "failure ((example_docker_env [])\<lparr>failure := Some earlier_failure\<rparr>) = Some earlier_failure \<and>
   failure (snd (update_build_from_container_state timed_out_system example_constants
       ((example_docker_env [])\<lparr>failure := Some earlier_failure\<rparr>)))
     = Some (Exn BuildEnvironmentError (py ''Build exited due to time out'')) \<and>
   Exn BuildEnvironmentError (py ''Build exited due to time out'') \<noteq> earlier_failure"
  by (simp add: update_build_from_container_state_def container_state_def get_client_def
      perform_def timed_out_system_def
      example_system_def timed_out_container_def example_constants_def earlier_failure_def py_def
      example_docker_env_def docker_env_init_def build_env_init_def Let_def isinstance_def)

section \<open>Commands in a container: memory exhaustion\<close>




lemma env_attrs_of_io [simp]:
  "env_attrs_of (s\<lparr>world := w, trace := t\<rparr>) = env_attrs_of s"
  by (simp add: env_attrs_of_def)



section \<open>Runs leave the shared mappings alone\<close>

lemma ref_command_init_keeps:
  "take (length h) (snd (ref_command_init h a)) = h \<and>
   length h < length (snd (ref_command_init h a)) \<and>
   (\<forall>own. fst (ref_command_init h a) = Inr own \<longrightarrow> own = length h)"
  by (simp add: ref_command_init_def dict_copy_def dict_new_def)

lemma ref_run_local_keeps:
  "n \<le> own \<Longrightarrow> own < length h \<Longrightarrow> take n (ref_run_local ext b host h own) = take n h"
  by (simp add: ref_run_local_def dict_copy_def dict_del_def dict_set_def dict_handed_out_def
      Let_def)

lemma ref_run_docker_keeps:
  "n \<le> own \<Longrightarrow> take n (ref_run_docker ext h own) = take n h"
  by (simp add: ref_run_docker_def dict_handed_out_def)

lemma run_keeps_existing_mappings:
  "take (length h) (snd (ref_run_command_class cls ext bin_path_kw host_path h shared)) = h"
proof -
  let ?h1 = "h @ [deref h shared]"
  let ?h2 = "dict_del ?h1 (length h) (py ''BIN_PATH'')"
  have len2: "length ?h2 = Suc (length h)" by (simp add: dict_del_def)
  have k2: "take (length h) ?h2 = h" by (simp add: dict_del_def)
  obtain r h3 where ci: "ref_command_init ?h2 (length h) = (r, h3)"
    by (cases "ref_command_init ?h2 (length h)")
  from ref_command_init_keeps [of ?h2 "length h"] ci len2
  have k3: "take (Suc (length h)) h3 = ?h2" and l3: "Suc (length h) < length h3"
    and own: "\<forall>own. r = Inr own \<longrightarrow> own = Suc (length h)"
    by simp_all
  have k3': "take (length h) h3 = h"
  proof -
    have "take (length h) h3 = take (length h) (take (Suc (length h)) h3)" by simp
    also have "\<dots> = take (length h) ?h2" by (simp only: k3)
    finally show ?thesis using k2 by simp
  qed
  show ?thesis
  proof (cases r)
    case (Inl e)
    with ci k3' show ?thesis
      by (simp add: ref_run_command_class_def dict_copy_def Let_def)
  next
    case (Inr a)
    with own have a: "a = Suc (length h)" by simp
    have "take (length h) (ref_run_local ext b host_path h3 a) = take (length h) h3" for b
      using a l3 by (intro ref_run_local_keeps) simp_all
    moreover have "take (length h) (ref_run_docker ext h3 a) = take (length h) h3"
      using a by (intro ref_run_docker_keeps) simp
    ultimately show ?thesis
      using ci Inr k3'
      by (simp add: ref_run_command_class_def dict_copy_def Let_def split: command_class.splits)
  qed
qed

lemma deref_take:
  "take n h' = take n h \<Longrightarrow> a < n \<Longrightarrow> n \<le> length h \<Longrightarrow> n \<le> length h' \<Longrightarrow> deref h' a = deref h a"
proof -
  assume t: "take n h' = take n h" and a: "a < n" and n: "n \<le> length h" "n \<le> length h'"
  have "h' ! a = take n h' ! a" using a by simp
  also have "\<dots> = take n h ! a" by (simp only: t)
  also have "\<dots> = h ! a" using a by simp
  finally show ?thesis using a n by (simp add: deref_def)
qed

lemma ref_env_init_shared:
  assumes "\<forall>a. caller = Some a \<longrightarrow> a < length h" and "ref_env_init h caller = (h0, shared)"
  shows "take (length h) h0 = h \<and> length h \<le> length h0 \<and> shared < length h0 \<and>
         (\<forall>a. caller = Some a \<and> deref h a \<noteq> [] \<longrightarrow> shared = a \<and> h0 = h)"
  using assms by (auto simp: ref_env_init_def dict_new_def split: option.splits if_splits)

text \<open>
  Claim C10. Let the environment be constructed over the caller's mapping (which it
  shares when the mapping is not empty) and let a command be run from it, by either
  command class, whatever the code outside does to the dictionary it is handed. Then
  every dictionary that existed before the run is unchanged: the store is only
  extended. In particular the environment's shared mapping and the caller's mapping
  are what they were: the run pops \<^verbatim>\<open>BIN_PATH\<close>, strips the internal variables and
  sets \<^verbatim>\<open>PATH\<close> in copies only.
\<close>

theorem run_leaves_mappings_unchanged:
  assumes valid: "\<forall>a. caller = Some a \<longrightarrow> a < length h"
    and init: "ref_env_init h caller = (h0, shared)"
  shows "take (length h0)
           (snd (ref_run_command_class cls ext bin_path_kw host_path h0 shared)) = h0 \<and>
         deref (snd (ref_run_command_class cls ext bin_path_kw host_path h0 shared)) shared
           = deref h0 shared \<and>
         (\<forall>a. caller = Some a \<longrightarrow>
            deref (snd (ref_run_command_class cls ext bin_path_kw host_path h0 shared)) a
              = deref h a) \<and>
         (\<forall>a. caller = Some a \<and> deref h a \<noteq> [] \<longrightarrow> shared = a)"
proof -
  let ?h' = "snd (ref_run_command_class cls ext bin_path_kw host_path h0 shared)"
  have keep: "take (length h0) ?h' = h0"
    by (rule run_keeps_existing_mappings)
  from ref_env_init_shared [OF valid init]
  have h0: "take (length h) h0 = h" and le: "length h \<le> length h0" and sh: "shared < length h0"
    and shr: "\<forall>a. caller = Some a \<and> deref h a \<noteq> [] \<longrightarrow> shared = a \<and> h0 = h"
    by blast+
  have len: "length h0 \<le> length ?h'"
  proof -
    have "length (take (length h0) ?h') = length h0" by (simp only: keep)
    then show ?thesis by simp
  qed
  have t0: "take (length h0) ?h' = take (length h0) h0" using keep by simp
  have d1: "deref ?h' shared = deref h0 shared"
    using t0 sh len by (intro deref_take [where n = "length h0"]) simp_all
  have d2: "deref ?h' a = deref h a" if c: "caller = Some a" for a
  proof -
    from valid c have a: "a < length h" by simp
    have "take (length h) ?h' = take (length h) (take (length h0) ?h')" using le by (simp add: min_def)
    also have "\<dots> = take (length h) h0" by (simp only: keep)
    also have "\<dots> = take (length h) h" using h0 by simp
    finally have "take (length h) ?h' = take (length h) h" .
    then show ?thesis using a le len by (intro deref_take [where n = "length h"]) simp_all
  qed
  from keep d1 d2 shr show ?thesis by blast
qed

theorem run_leaves_mappings_unchanged_witness:
  "ref_env_init example_store (Some 0) = (example_store, 0) \<and>
   deref (snd (ref_run_command_class BuildCommand (\<lambda>d. []) None (py ''/usr/bin'') example_store 0)) 0
     = [(py ''BIN_PATH'', py ''/opt/bin''), (py ''PYTHONPATH'', py ''/src'')] \<and>
   deref (snd (ref_run_command_class DockerBuildCommand (\<lambda>d. []) None (py ''/usr/bin'') example_store 0)) 0
     = [(py ''BIN_PATH'', py ''/opt/bin''), (py ''PYTHONPATH'', py ''/src'')]"
proof -
  have v: "\<forall>a. Some (0::nat) = Some a \<longrightarrow> a < length example_store"
    by (simp add: example_store_def)
  have i: "ref_env_init example_store (Some 0) = (example_store, 0)"
    by (simp add: ref_env_init_def example_store_def deref_def)
  have d: "deref example_store 0 = [(py ''BIN_PATH'', py ''/opt/bin''), (py ''PYTHONPATH'', py ''/src'')]"
    by (simp add: example_store_def deref_def)
  from run_leaves_mappings_unchanged [OF v i, of BuildCommand "\<lambda>d. []" None "py ''/usr/bin''"]
    run_leaves_mappings_unchanged [OF v i, of DockerBuildCommand "\<lambda>d. []" None "py ''/usr/bin''"]
    i d
  show ?thesis by simp
qed

text \<open>
  The store after a local run over the example store: the caller's mapping, the copy
  without \<^verbatim>\<open>BIN_PATH\<close> made by \<^verbatim>\<open>run_command_class\<close>, the command's own copy, and the
  dictionary that the process gets.
\<close>

lemma run_store_example:
  "snd (ref_run_command_class BuildCommand (\<lambda>d. d) None (py ''/usr/bin'') example_store 0) =
     [[(py ''BIN_PATH'', py ''/opt/bin''), (py ''PYTHONPATH'', py ''/src'')],
      [(py ''PYTHONPATH'', py ''/src'')],
      [(py ''PYTHONPATH'', py ''/src'')],
      [(py ''PATH'', py ''/opt/bin:/usr/bin'')]]"
  by (simp add: ref_run_command_class_def ref_command_init_def ref_run_local_def dict_copy_def
      dict_del_def dict_set_def dict_handed_out_def deref_def example_store_def Let_def py_def
      truthy_str_def nth_append)

section \<open>Commands recorded as a success\<close>

lemma only_io_refl [simp]: "only_io s s"
  by (simp add: only_io_def)

lemma only_io_trans: "only_io s s1 \<Longrightarrow> only_io s1 s2 \<Longrightarrow> only_io s s2"
  unfolding only_io_def
proof -
  assume a: "s1 = s\<lparr>world := world s1, trace := trace s1, client := client s1\<rparr>"
    and b: "s2 = s1\<lparr>world := world s2, trace := trace s2, client := client s2\<rparr>"
  have "s2 = (s\<lparr>world := world s1, trace := trace s1, client := client s1\<rparr>)
              \<lparr>world := world s2, trace := trace s2, client := client s2\<rparr>"
    using a b by simp
  then show "s2 = s\<lparr>world := world s2, trace := trace s2, client := client s2\<rparr>"
    by simp
qed

lemma only_io_fields:
  assumes "only_io s s'"
  shows "build s' = build s" "project s' = project s" "commands s' = commands s"
    "failure s' = failure s" "record_flag s' = record_flag s" "environment s' = environment s"
    "update_on_success s' = update_on_success s" "version s' = version s"
    "command_class s' = command_class s" "container s' = container s"
    "container_name s' = container_name s"
proof -
  from assms have e: "s' = s\<lparr>world := world s', trace := trace s', client := client s'\<rparr>"
    by (simp add: only_io_def)
  show "build s' = build s" by (subst e) simp
  show "project s' = project s" by (subst e) simp
  show "commands s' = commands s" by (subst e) simp
  show "failure s' = failure s" by (subst e) simp
  show "record_flag s' = record_flag s" by (subst e) simp
  show "environment s' = environment s" by (subst e) simp
  show "update_on_success s' = update_on_success s" by (subst e) simp
  show "version s' = version s" by (subst e) simp
  show "command_class s' = command_class s" by (subst e) simp
  show "container s' = container s" by (subst e) simp
  show "container_name s' = container_name s" by (subst e) simp
qed

lemma perform_only_io: "only_io s (snd (perform c f s))"
  by (simp add: perform_def only_io_def split: prod.splits)

lemma perform_eq: "perform c f s = (r, s') \<Longrightarrow> only_io s s' \<and> trace s' = trace s @ [c]"
  by (auto simp: perform_def only_io_def split: prod.splits)

lemma get_client_only_io: "get_client sys k s = (r, s') \<Longrightarrow> only_io s s'"
  by (auto simp: get_client_def perform_def only_io_def split: prod.splits sum.splits if_splits)

lemma run_local_only_io: "run_local sys k c s = (r, s') \<Longrightarrow> only_io s s'"
  by (auto simp: run_local_def Let_def perform_def only_io_def
      split: prod.splits sum.splits if_splits)

lemma api_error_handler_state: "api_error_handler c e s = (r, s') \<Longrightarrow> s' = s"
  by (auto simp: api_error_handler_def split: if_splits)

lemma run_docker_only_io:
  assumes "run_docker sys k c s = (r, s')"
  shows "only_io s s'"
proof -
  obtain r1 s1 where g: "get_client sys k s = (r1, s1)" by (cases "get_client sys k s")
  then have o1: "only_io s s1" by (rule get_client_only_io)
  have "only_io s1 s'"
    using assms g
    by (auto simp: run_docker_def Let_def perform_def only_io_def
        dest!: api_error_handler_state split: prod.splits sum.splits if_splits option.splits)
  with o1 show ?thesis by (rule only_io_trans)
qed

lemma run_command_only_io: "run_command sys k cls c s = (r, s') \<Longrightarrow> only_io s s'"
  by (auto simp: run_command_def dest: run_local_only_io run_docker_only_io
      split: command_class.splits)

lemma make_command_policy:
  "make_command k cmd (kw\<lparr>kw_record := rc, kw_warn_only := wo\<rparr>) s = make_command k cmd kw s"
  by (simp add: make_command_def Let_def)

lemma make_command_record_as_success:
  "make_command k cmd kw s = Inr c \<Longrightarrow> record_as_success c = kw_record_as_success kw"
  by (auto simp: make_command_def command_init_def Let_def split: if_splits)

lemma run_command_record_as_success:
  "run_command sys k cls c s = (Inr c', s') \<Longrightarrow> record_as_success c' = record_as_success c"
  by (auto simp: run_command_def run_local_def run_docker_def api_error_handler_def Let_def
      split: command_class.splits prod.splits sum.splits if_splits option.splits)

text \<open>
  Claim C8. Let a command be run with \<open>record_as_success\<close> from an environment that
  has a build record: the command object is constructed and its run returns with some
  exit code, zero or not. Then, whatever the
  caller's \<open>record\<close> and \<open>warn_only\<close> are, the command is saved with exit code 0
  (the one call to the tracking API carries 0), it is appended to the environment's
  commands with exit code 0, and the run raises nothing but what the call to the
  tracking API raises: in particular never the failure signal for a failed command.
\<close>

theorem record_as_success_persists_zero:
  assumes ras: "kw_record_as_success kw"
    and mk: "make_command k cmd kw s = Inr c0"
    and rn: "run_command sys k cls c0 s = (Inr c1, s1)"
    and bd: "build s = Some b"
  shows "trace (snd (run_command_class sys k cls cmd kw s)) =
           trace s1 @ [Call_command_post (get_command c1) (Some 0)
                         (has_feature (project s) API_LARGE_DATA)] \<and>
         fst (run_command_class sys k cls cmd kw s) =
           (case fst (api_command_post sys (c1\<lparr>exit_code := Some 0\<rparr>)
                        (has_feature (project s) API_LARGE_DATA) (world s1)) of
              Inl e \<Rightarrow> Inl e
            | Inr u \<Rightarrow> Inr (c1\<lparr>exit_code := Some 0\<rparr>)) \<and>
         (\<forall>c. fst (run_command_class sys k cls cmd kw s) = Inr c \<longrightarrow>
              commands (snd (run_command_class sys k cls cmd kw s)) = commands s @ [c]) \<and>
         run_command_class sys k cls cmd (kw\<lparr>kw_record := rc, kw_warn_only := wo\<rparr>) s
           = run_command_class sys k cls cmd kw s"
proof -
  from rn have io: "only_io s s1" by (rule run_command_only_io)
  then have b1: "build s1 = Some b" and p1: "project s1 = project s"
    and cs1: "commands s1 = commands s"
    using bd by (simp_all add: only_io_fields)
  from mk ras have "record_as_success c0" by (simp add: make_command_record_as_success)
  with rn have r1: "record_as_success c1" by (simp add: run_command_record_as_success)
  let ?mp = "has_feature (project s) API_LARGE_DATA"
  let ?c = "c1\<lparr>exit_code := Some 0\<rparr>"
  obtain pr w where post: "api_command_post sys ?c ?mp (world s1) = (pr, w)"
    by (cases "api_command_post sys ?c ?mp (world s1)")
  let ?s2 = "s1\<lparr>world := w, trace := trace s1 @ [Call_command_post (get_command c1) (Some 0) ?mp]\<rparr>"
  have gc: "get_command ?c = get_command c1" by (simp add: get_command_def)
  have sv: "save sys c1 s1 = (case pr of Inl e \<Rightarrow> (Inl e, ?s2) | Inr u \<Rightarrow> (Inr ?c, ?s2))"
    using r1 b1 p1 post gc by (simp add: save_def perform_def Let_def split: sum.splits)
  have nf: "\<not> command_failed ?c"
    by (simp add: command_failed_def command_successful_def)
  have main: "run_command_class sys k cls cmd kw s =
      (case pr of Inl e \<Rightarrow> (Inl e, ?s2)
       | Inr u \<Rightarrow> (Inr ?c, ?s2\<lparr>commands := commands s @ [?c]\<rparr>))"
    using ras mk rn sv nf cs1 by (simp add: run_command_class_def Let_def split: sum.splits)
  have pol: "run_command_class sys k cls cmd (kw\<lparr>kw_record := rc, kw_warn_only := wo\<rparr>) s =
      (case pr of Inl e \<Rightarrow> (Inl e, ?s2)
       | Inr u \<Rightarrow> (Inr ?c, ?s2\<lparr>commands := commands s @ [?c]\<rparr>))"
    using ras mk rn sv nf cs1
    by (simp add: run_command_class_def make_command_policy Let_def split: sum.splits)
  show ?thesis
    unfolding pol main using post by (simp split: sum.splits)
qed

theorem record_as_success_persists_zero_witness:
  "kw_record_as_success forced_success_kwargs \<and>
   fst (run_command example_system example_constants BuildCommand false_command
          (example_local_env [3]))
     = Inr (false_command\<lparr>cmd_output := Some [], exit_code := Some 3\<rparr>) \<and>
   fst (run_command_class example_system example_constants BuildCommand [py ''false'']
          forced_success_kwargs (example_local_env [3]))
     = Inr (false_command\<lparr>cmd_output := Some [], exit_code := Some 0\<rparr>) \<and>
   trace (snd (run_command_class example_system example_constants BuildCommand [py ''false'']
          forced_success_kwargs (example_local_env [3])))
     = [Call_Popen [py ''false''] False, Call_command_post (py ''false'') (Some 0) False]"
proof -
  let ?s1 = "(example_local_env [3])\<lparr>world := [], trace := [Call_Popen [py ''false''] False]\<rparr>"
  let ?c1 = "false_command\<lparr>cmd_output := Some [], cmd_error := None, exit_code := Some 3\<rparr>"
  have ras: "kw_record_as_success forced_success_kwargs"
    by (simp add: forced_success_kwargs_def default_kwargs_def)
  have mk: "make_command example_constants [py ''false''] forced_success_kwargs
              (example_local_env [3]) = Inr false_command"
    by (simp add: make_command_def command_init_def forced_success_kwargs_def default_kwargs_def
        example_local_env_def build_env_init_def example_constants_def false_command_def
        truthy_str_def Let_def)
  have sn: "sanitize_output 2621440 be (Some []) = Inr (Some [])"
    "sanitize_output 2621440 be None = Inr None" for be
    by (simp_all add: sanitize_output_def decoded_def)
  have rn: "run_command example_system example_constants BuildCommand false_command
              (example_local_env [3]) = (Inr ?c1, ?s1)"
    using sn
    by (simp add: run_command_def run_local_def perform_def example_system_def
        example_local_env_def build_env_init_def example_constants_def false_command_def Let_def)
  have bd: "build (example_local_env [3]) = Some example_build"
    by (simp add: example_local_env_def build_env_init_def)
  have pj: "\<not> has_feature (project (example_local_env [3])) API_LARGE_DATA"
    by (simp add: example_local_env_def build_env_init_def example_project_def has_feature_def)
  have gc: "get_command ?c1 = py ''false''"
    by (simp add: get_command_def false_command_def)
  have ps: "fst (api_command_post example_system c m w) = Inr ()" for c m w
    by (simp add: example_system_def)
  have c1: "?c1 = false_command\<lparr>cmd_output := Some [], exit_code := Some 3\<rparr>"
    by (simp add: false_command_def)
  from record_as_success_persists_zero [OF ras mk rn bd] ras rn pj gc ps c1
  show ?thesis by (simp add: false_command_def)
qed

section \<open>A build of two commands, the second failing\<close>

lemma build_puts_append: "build_puts (xs @ ys) = build_puts xs @ build_puts ys"
  by (induction xs rule: build_puts.induct) simp_all

lemma engine_only_refl [simp]: "engine_only s s"
  by (simp add: engine_only_def)

lemma engine_only_trans: "engine_only s s1 \<Longrightarrow> engine_only s1 s2 \<Longrightarrow> engine_only s s2"
  by (simp add: engine_only_def)

lemma only_io_engine_only:
  assumes "only_io s s'" and "build_puts (trace s') = build_puts (trace s)"
  shows "engine_only s s'" and "failure s' = failure s" and "container s' = container s"
proof -
  from assms(1) have e: "s' = s\<lparr>world := world s', trace := trace s', client := client s'\<rparr>"
    by (simp add: only_io_def)
  have "project s' = project s" "environment s' = environment s" "commands s' = commands s"
    "version s' = version s" "build s' = build s" "config s' = config s"
    "record_flag s' = record_flag s" "update_on_success s' = update_on_success s"
    "command_class s' = command_class s"
    by (subst e, simp)+
  with assms(2) show "engine_only s s'" by (simp add: engine_only_def)
  show "failure s' = failure s" by (subst e) simp
  show "container s' = container s" by (subst e) simp
qed

lemma perform_puts:
  "perform c f s = (r, s') \<Longrightarrow> build_puts (trace s') = build_puts (trace s) @ build_puts [c]"
  by (auto simp: perform_def build_puts_append split: prod.splits)

lemma get_client_puts:
  "get_client sys k s = (r, s') \<Longrightarrow> build_puts (trace s') = build_puts (trace s)"
  by (auto simp: get_client_def perform_def build_puts_append
      split: prod.splits sum.splits if_splits)

lemma run_local_puts:
  "run_local sys k c s = (r, s') \<Longrightarrow> build_puts (trace s') = build_puts (trace s)"
  by (auto simp: run_local_def Let_def perform_def build_puts_append
      split: prod.splits sum.splits if_splits)

lemma run_docker_puts:
  assumes "run_docker sys k c s = (r, s')"
  shows "build_puts (trace s') = build_puts (trace s)"
proof -
  obtain r1 s1 where g: "get_client sys k s = (r1, s1)" by (cases "get_client sys k s")
  then have p1: "build_puts (trace s1) = build_puts (trace s)" by (rule get_client_puts)
  have "build_puts (trace s') = build_puts (trace s1)"
    using assms g
    by (auto simp: run_docker_def Let_def perform_def build_puts_append
        dest!: api_error_handler_state split: prod.splits sum.splits if_splits option.splits)
  with p1 show ?thesis by simp
qed

lemma run_command_puts:
  "run_command sys k cls c s = (r, s') \<Longrightarrow> build_puts (trace s') = build_puts (trace s)"
  by (auto simp: run_command_def dest: run_local_puts run_docker_puts
      split: command_class.splits)

lemma run_command_command:
  "run_command sys k cls c s = (Inr c', s') \<Longrightarrow> command c' = command c"
  by (auto simp: run_command_def run_local_def run_docker_def api_error_handler_def Let_def
      split: command_class.splits prod.splits sum.splits if_splits option.splits)

lemma make_command_command: "make_command k cmd kw s = Inr c \<Longrightarrow> command c = cmd"
  by (auto simp: make_command_def command_init_def Let_def split: if_splits)

lemma save_frame:
  assumes "save sys c s = (r, s')"
  shows "only_io s s'" and "build_puts (trace s') = build_puts (trace s)"
    and "r = Inr c' \<Longrightarrow> command c' = command c"
  using assms
  by (auto simp: save_def Let_def perform_def only_io_def build_puts_append
      split: option.splits prod.splits sum.splits if_splits)

text \<open>
  A run under the default policy from a recording environment that has appended a
  command: the command is the one that was run, the run has raised the warning-class
  signal if the command failed and has returned the command if not, and nothing but
  the commands has changed in the environment.
\<close>

lemma run_recorded:
  assumes rec: "record_flag s"
    and r: "run sys k cmd default_kwargs s = (res, s')"
    and app: "commands s' = commands s @ [c]"
  shows "res = (if command_failed c
                then Inl (Exn BuildEnvironmentWarning (failure_message c)) else Inr c)"
    and "command c = cmd"
    and "engine_only s (s'\<lparr>commands := commands s\<rparr>)"
    and "failure s' = failure s"
proof -
  have kw: "kw_record default_kwargs = None" "\<not> kw_warn_only default_kwargs"
    "\<not> kw_record_as_success default_kwargs"
    by (simp_all add: default_kwargs_def)
  have main: "res = (if command_failed c
                then Inl (Exn BuildEnvironmentWarning (failure_message c)) else Inr c) \<and>
      command c = cmd \<and> engine_only s (s'\<lparr>commands := commands s\<rparr>) \<and> failure s' = failure s"
  proof (cases "make_command k cmd default_kwargs s")
    case (Inl e)
    with r have "s' = s" by (simp add: run_def run_command_class_def Let_def)
    with app show ?thesis by simp
  next
    case (Inr c0)
    then have cc0: "command c0 = cmd" by (rule make_command_command)
    obtain r1 s1 where rc: "run_command sys k (command_class s) c0 s = (r1, s1)"
      by (cases "run_command sys k (command_class s) c0 s")
    then have io1: "only_io s s1" and p1: "build_puts (trace s1) = build_puts (trace s)"
      by (rule run_command_only_io, rule run_command_puts)
    have f1: "engine_only s s1" "failure s1 = failure s"
      using io1 p1 by (rule only_io_engine_only)+
    show ?thesis
    proof (cases r1)
      case (Inl e)
      with r Inr rc have "s' = s1" by (simp add: run_def run_command_class_def Let_def)
      with f1 app show ?thesis by (simp add: engine_only_def)
    next
      case c1: (Inr c1)
      with rc have cc1: "command c1 = cmd" using cc0 by (simp add: run_command_command)
      obtain r2 s2 where sv: "save sys c1 s1 = (r2, s2)" by (cases "save sys c1 s1")
      then have io2: "only_io s1 s2" and p2: "build_puts (trace s2) = build_puts (trace s1)"
        by (rule save_frame)+
      have f2: "engine_only s1 s2" "failure s2 = failure s1"
        using io2 p2 by (rule only_io_engine_only)+
      have e2: "engine_only s s2" using f1(1) f2(1) by (rule engine_only_trans)
      show ?thesis
      proof (cases r2)
        case (Inl e)
        with r Inr rc c1 sv rec kw have "s' = s2"
          by (simp add: run_def run_command_class_def Let_def)
        with e2 app show ?thesis by (simp add: engine_only_def)
      next
        case c2: (Inr c2)
        have "command c2 = command c1" using sv c2 by (rule save_frame(3))
        with cc1 have cc2: "command c2 = cmd" by simp
        from r Inr rc c1 sv c2 rec kw
        have res: "res = (if command_failed c2
                then Inl (Exn BuildEnvironmentWarning (failure_message c2)) else Inr c2)"
          and s': "s' = s2\<lparr>commands := commands s2 @ [c2]\<rparr>"
          by (simp_all add: run_def run_command_class_def Let_def split: if_splits)
        from s' app e2 have "c = c2" by (simp add: engine_only_def)
        with res cc2 s' e2 f1(2) f2(2) show ?thesis by (simp add: engine_only_def)
      qed
    qed
  qed
then show "res = (if command_failed c
                then Inl (Exn BuildEnvironmentWarning (failure_message c)) else Inr c)"
    and "command c = cmd"
    and "engine_only s (s'\<lparr>commands := commands s\<rparr>)"
    and "failure s' = failure s"
    by simp_all
qed

text \<open>A successful entry touches nothing but the engine, the host and the container.\<close>

lemma container_state_frame:
  assumes "container_state sys k s = (r, s')"
  shows "only_io s s'" and "build_puts (trace s') = build_puts (trace s)"
proof -
  obtain r1 s1 where g: "get_client sys k s = (r1, s1)" by (cases "get_client sys k s")
  then have o1: "only_io s s1" and p1: "build_puts (trace s1) = build_puts (trace s)"
    by (rule get_client_only_io, rule get_client_puts)
  have "only_io s1 s' \<and> build_puts (trace s') = build_puts (trace s1)"
    using assms g
    by (auto simp: container_state_def perform_def only_io_def build_puts_append
        split: prod.splits sum.splits if_splits)
  with o1 p1 show "only_io s s'" and "build_puts (trace s') = build_puts (trace s)"
    by (auto intro: only_io_trans)
qed

lemma stale_check_frame:
  assumes sc: "stale_check sys k s = (r, s')"
    and go: "case r of Inr u \<Rightarrow> True
             | Inl e \<Rightarrow> isinstance e DockerAPIError \<or> isinstance e ConnectionError"
  shows "only_io s s'" and "build_puts (trace s') = build_puts (trace s)"
proof -
  obtain r1 s1 where c: "container_state sys k s = (r1, s1)"
    by (cases "container_state sys k s")
  then have o1: "only_io s s1" and p1: "build_puts (trace s1) = build_puts (trace s)"
    by (rule container_state_frame)+
  have nl: "\<not> isinstance lock_error DockerAPIError" "\<not> isinstance lock_error ConnectionError"
    by (simp_all add: isinstance_def issubclass_def lock_error_def)
  have "only_io s1 s' \<and> build_puts (trace s') = build_puts (trace s1)"
  proof (cases r1)
    case (Inl e)
    with sc c show ?thesis by (simp add: stale_check_def)
  next
    case (Inr st)
    show ?thesis
    proof (cases st)
      case None
      with sc c Inr show ?thesis by (simp add: stale_check_def)
    next
      case (Some info)
      show ?thesis
      proof (cases "Running info = Some True")
        case True
        with sc c Inr Some have "r = Inl lock_error"
          by (auto simp: stale_check_def Let_def)
        with go nl show ?thesis by simp
      next
        case False
        obtain r2 s2 where g: "get_client sys k s1 = (r2, s2)" by (cases "get_client sys k s1")
        then have o2: "only_io s1 s2" and p2: "build_puts (trace s2) = build_puts (trace s1)"
          by (rule get_client_only_io, rule get_client_puts)
        have "only_io s2 s' \<and> build_puts (trace s') = build_puts (trace s2)"
          using sc c Inr Some False g
          by (auto simp: stale_check_def perform_def only_io_def build_puts_append
              split: sum.splits prod.splits)
        with o2 p2 show ?thesis by (auto intro: only_io_trans)
      qed
    qed
  qed
  with o1 p1 show "only_io s s'" and "build_puts (trace s') = build_puts (trace s)"
    by (auto intro: only_io_trans)
qed

lemma create_container_frame:
  assumes "create_container sys k s = (r, s')"
  shows "engine_only s s'" and "failure s' = failure s"
proof -
  obtain r1 s1 where g: "get_client sys k s = (r1, s1)" by (cases "get_client sys k s")
  then have o1: "only_io s s1" and p1: "build_puts (trace s1) = build_puts (trace s)"
    by (rule get_client_only_io, rule get_client_puts)
  have f1: "engine_only s s1" "failure s1 = failure s"
    using o1 p1 by (rule only_io_engine_only)+
  have "engine_only s1 s' \<and> failure s' = failure s1"
    using assms g
    by (auto simp: create_container_def perform_def engine_only_def build_puts_append Let_def
        split: prod.splits sum.splits)
  with f1 show "engine_only s s'" and "failure s' = failure s"
    by (auto intro: engine_only_trans)
qed

lemma exit_and_reraise_raises: "exit_and_reraise sys k e s = (Inr u, s') \<Longrightarrow> False"
  by (auto simp: exit_and_reraise_def split: prod.splits sum.splits)

lemma provision_frame:
  assumes "provision sys k s = (Inr u, s')"
  shows "engine_only s s'" and "failure s' = failure s"
proof -
  let ?mk = "if \<not> os_path_exists sys (doc_path (project s)) (world s)
             then perform (Call_makedirs (doc_path (project s)))
                    (os_makedirs sys (doc_path (project s))) s
             else (Inr (), s)"
  obtain r1 s1 where m: "?mk = (r1, s1)" by (cases ?mk)
  then have "only_io s s1 \<and> build_puts (trace s1) = build_puts (trace s)"
    by (auto simp: perform_def only_io_def build_puts_append split: if_splits prod.splits)
  then have f1: "engine_only s s1" "failure s1 = failure s"
    by (auto intro: only_io_engine_only)
  obtain r2 s2 where cr: "create_container sys k s1 = (r2, s2)"
    by (cases "create_container sys k s1")
  then have f2: "engine_only s1 s2" "failure s2 = failure s1"
    by (rule create_container_frame)+
  have "s' = s2"
    using assms m cr
    by (auto simp: provision_def dest: exit_and_reraise_raises split: sum.splits)
  with f1 f2 show "engine_only s s'" and "failure s' = failure s"
    by (auto intro: engine_only_trans)
qed

lemma env_enter_frame:
  assumes "env_enter sys k s = (Inr u, s')"
  shows "engine_only s s'" and "failure s' = failure s"
proof -
  have "engine_only s s' \<and> failure s' = failure s"
  proof (cases "command_class s")
  case BuildCommand
  with assms show ?thesis by (simp add: env_enter_def)
next
  case DockerBuildCommand
  with assms have en: "docker_env_enter sys k s = (Inr u, s')" by (simp add: env_enter_def)
  obtain r1 s1 where sc: "stale_check sys k s = (r1, s1)" by (cases "stale_check sys k s")
  have go: "(case r1 of Inr u \<Rightarrow> True
             | Inl e \<Rightarrow> isinstance e DockerAPIError \<or> isinstance e ConnectionError) \<and>
            provision sys k s1 = (Inr u, s')"
    using en sc
    by (auto simp: docker_env_enter_def dest: exit_and_reraise_raises
        split: sum.splits if_splits)
  then have "only_io s s1" and "build_puts (trace s1) = build_puts (trace s)"
    using stale_check_frame [OF sc] by simp_all
  then have f1: "engine_only s s1" "failure s1 = failure s"
    by (rule only_io_engine_only)+
  from go have "engine_only s1 s'" "failure s' = failure s1"
    using provision_frame [of sys k s1 u s'] by simp_all
  with f1 show ?thesis
    by (auto intro: engine_only_trans)
  qed
  then show "engine_only s s'" and "failure s' = failure s" by simp_all
qed

text \<open>
  The teardown of the Docker exit touches nothing but the engine, the container and the
  failure, and the failure is as the reconciliation with the container's state leaves
  it: the one stored before, or one of three errors.
\<close>

lemma reconciliation_frame:
  assumes "update_build_from_container_state sys k s = (r, s')"
  shows "engine_only s s'"
    and "failure s' = failure s \<or>
         (\<exists>msg. failure s' = Some (Exn BuildEnvironmentError msg) \<and> msg \<noteq> [] \<and>
                (msg = py ''Build exited due to time out'' \<or>
                 msg = py ''Build exited due to excessive memory consumption'' \<or>
                 (\<exists>err. err \<noteq> [] \<and> msg = py ''Build exited due to unknown error: '' @ err)))"
proof -
  obtain r1 s1 where c: "container_state sys k s = (r1, s1)"
    by (cases "container_state sys k s")
  then have "only_io s s1" and "build_puts (trace s1) = build_puts (trace s)"
    by (rule container_state_frame)+
  then have f1: "engine_only s s1" "failure s1 = failure s"
    by (rule only_io_engine_only)+
  have e: "engine_only s1 s'"
    using assms c
    by (auto simp: update_build_from_container_state_def engine_only_def
        split: sum.splits option.splits if_splits)
  with f1 show "engine_only s s'" by (auto intro: engine_only_trans)
  have "failure s' = failure s1 \<or>
         (\<exists>msg. failure s' = Some (Exn BuildEnvironmentError msg) \<and> msg \<noteq> [] \<and>
                (msg = py ''Build exited due to time out'' \<or>
                 msg = py ''Build exited due to excessive memory consumption'' \<or>
                 (\<exists>err. err \<noteq> [] \<and> msg = py ''Build exited due to unknown error: '' @ err)))"
    using assms c
    by (auto simp: update_build_from_container_state_def py_def
        split: sum.splits option.splits if_splits)
  with f1 show "failure s' = failure s \<or>
         (\<exists>msg. failure s' = Some (Exn BuildEnvironmentError msg) \<and> msg \<noteq> [] \<and>
                (msg = py ''Build exited due to time out'' \<or>
                 msg = py ''Build exited due to excessive memory consumption'' \<or>
                 (\<exists>err. err \<noteq> [] \<and> msg = py ''Build exited due to unknown error: '' @ err)))"
    by simp
qed

lemma remove_step_frame:
  assumes "remove_step sys s = (r, s')"
  shows "engine_only s s'" and "failure s' = failure s"
  using assms
  by (auto simp: remove_step_def perform_def engine_only_def build_puts_append
      split: prod.splits sum.splits if_splits)

lemma teardown_frame:
  assumes "teardown sys k s = (r, s')"
  shows "engine_only s s'"
    and "failure s' = failure (snd (update_build_from_container_state sys k s))"
proof -
  obtain r1 s1 where u: "update_build_from_container_state sys k s = (r1, s1)"
    by (cases "update_build_from_container_state sys k s")
  then have e1: "engine_only s s1" by (rule reconciliation_frame)
  obtain r2 s2 where g: "get_client sys k s1 = (r2, s2)" by (cases "get_client sys k s1")
  then have "only_io s1 s2" and "build_puts (trace s2) = build_puts (trace s1)"
    by (rule get_client_only_io, rule get_client_puts)
  then have e2: "engine_only s1 s2" "failure s2 = failure s1"
    by (rule only_io_engine_only)+
  obtain r3 s3 where p: "perform (Call_kill (container_id s2)) (client_kill sys (container_id s2)) s2
      = (r3, s3)"
    by (cases "perform (Call_kill (container_id s2)) (client_kill sys (container_id s2)) s2")
  then have "only_io s2 s3" and "build_puts (trace s3) = build_puts (trace s2)"
    using perform_eq [OF p] perform_puts [OF p] by simp_all
  then have e3: "engine_only s2 s3" "failure s3 = failure s2"
    by (rule only_io_engine_only)+
  obtain r4 s4 where rs: "remove_step sys s3 = (r4, s4)" by (cases "remove_step sys s3")
  then have e4: "engine_only s3 s4" "failure s4 = failure s3"
    by (rule remove_step_frame)+
  have "s' = s1 \<or> s' = s2 \<or> s' = s3 \<or> s' = s4"
    using assms u g p rs
    by (auto simp: teardown_def split: prod.splits sum.splits if_splits)
  with e1 e2 e3 e4 u
  show "engine_only s s'"
    and "failure s' = failure (snd (update_build_from_container_state sys k s))"
    by (auto intro: engine_only_trans)
qed

text \<open>
  The report of a finished build of two commands, the second of which has failed, with
  no failure stored or with a stored failure of the error class.
\<close>

lemma update_build_failed_commands:
  assumes rec: "record_flag s" and bd: "build s = Some b"
    and fl: "failure s = None \<or> (\<exists>msg. failure s = Some (Exn BuildEnvironmentError msg))"
    and cs: "commands s = [c1, c2]" and e1: "exit_code c1 = Some 0" and e2: "exit_code c2 = Some 2"
  shows "\<exists>b' s'. update_build sys k (BUILD_STATE_FINISHED k) s = (Inr (), s') \<and>
           build_puts (trace s') = build_puts (trace s) @ [b'] \<and>
           build_success b' = Some False \<and>
           build_error b' = Some (case failure s of None \<Rightarrow> [] | Some f \<Rightarrow> exn_str f) \<and>
           build_exit_code b'
             = Some (case failure s of None \<Rightarrow> 2 | Some f \<Rightarrow> status_code k f) \<and>
           build_state b' = BUILD_STATE_FINISHED k \<and>
           build s' = Some b' \<and> commands s' = commands s \<and> failure s' = failure s"
proof -
  let ?b' = "b\<lparr>build_project := Some (pk (project s)),
               build_version := Some (version_pk (version s)),
               build_state := BUILD_STATE_FINISHED k,
               build_success := Some False,
               build_exit_code := Some (case failure s of None \<Rightarrow> 2 | Some f \<Rightarrow> status_code k f),
               build_setup := Some [], build_setup_error := Some [],
               build_output := Some [],
               build_error := Some (case failure s of None \<Rightarrow> [] | Some f \<Rightarrow> exn_str f)\<rparr>"
  obtain r w where put: "api_build_put sys ?b' (world s) = (r, w)"
    by (cases "api_build_put sys ?b' (world s)")
  let ?s' = "s\<lparr>build := Some ?b', world := w, trace := trace s @ [Call_build_put ?b']\<rparr>"
  have ub: "update_build sys k (BUILD_STATE_FINISHED k) s = (Inr (), ?s')"
  proof (cases "failure s")
    case None
    with rec bd cs e1 e2 put show ?thesis
      by (simp add: update_build_def set_build_fields_def is_done_def successful_def
          command_successful_def py_max_def perform_def Let_def)
  next
    case (Some f)
    with fl obtain msg where f: "f = Exn BuildEnvironmentError msg" by auto
    have cls: "isinstance f BuildEnvironmentException"
      by (simp add: f isinstance_def issubclass_def)
    with Some rec bd cs e1 e2 put show ?thesis
      by (simp add: update_build_def set_build_fields_def is_done_def successful_def
          command_successful_def perform_def Let_def)
  qed
  moreover have "build_puts (trace ?s') = build_puts (trace s) @ [?b']"
    by (simp add: build_puts_append)
  ultimately show ?thesis by (intro exI [of _ ?b'] exI [of _ ?s']) simp
qed

lemma example_docker_env_fields:
  "client (example_docker_env w) = False"
  "build (example_docker_env w) = Some example_build"
  "record_flag (example_docker_env w)"
  "update_on_success (example_docker_env w)"
  "failure (example_docker_env w) = None"
  "commands (example_docker_env w) = []"
  "trace (example_docker_env w) = []"
  "world (example_docker_env w) = w"
  "command_class (example_docker_env w) = DockerBuildCommand"
  "container (example_docker_env w) = None"
  "environment (example_docker_env w) = Map.empty"
  "project (example_docker_env w) = example_project"
  "container_name (example_docker_env w) \<noteq> []"
  by (simp_all add: example_docker_env_def docker_env_init_def build_env_init_def Let_def
      get_container_name_def example_constants_def py_def)

lemma default_command_made:
  "environment s = Map.empty \<Longrightarrow>
   make_command example_constants cmd default_kwargs s = Inr (default_command cmd)"
  by (simp add: make_command_def command_init_def default_kwargs_def
        example_constants_def default_command_def truthy_str_def Let_def)

text \<open>
  A command that is constructed, runs to its end and is accepted by the tracking API is
  appended to the commands of a recording environment.
\<close>

lemma run_default:
  assumes rec: "record_flag s" and bd: "build s = Some b"
    and mk: "make_command k cmd default_kwargs s = Inr c0"
    and rn: "run_command sys k (command_class s) c0 s = (Inr c, t)"
    and po: "fst (api_command_post sys c (has_feature (project s) API_LARGE_DATA) (world t))
               = Inr ()"
    and r: "run sys k cmd default_kwargs s = (res, s')"
  shows "commands s' = commands s @ [c]"
proof -
  have kw: "kw_record default_kwargs = None" "\<not> kw_warn_only default_kwargs"
    "\<not> kw_record_as_success default_kwargs"
    by (simp_all add: default_kwargs_def)
  from rn have io: "only_io s t" by (rule run_command_only_io)
  then have bt: "build t = Some b" and pt: "project t = project s"
    and ct: "commands t = commands s"
    using bd by (simp_all add: only_io_fields)
  from mk kw have "\<not> record_as_success c0" by (simp add: make_command_record_as_success)
  with rn have ras: "\<not> record_as_success c" by (simp add: run_command_record_as_success)
  let ?mp = "has_feature (project s) API_LARGE_DATA"
  obtain pr w where post: "api_command_post sys c ?mp (world t) = (pr, w)"
    by (cases "api_command_post sys c ?mp (world t)")
  with po have pr: "pr = Inr ()" by simp
  let ?t2 = "t\<lparr>world := w, trace := trace t @ [Call_command_post (get_command c) (exit_code c) ?mp]\<rparr>"
  have sv: "save sys c t = (Inr c, ?t2)"
    using ras bt pt post pr by (simp add: save_def perform_def Let_def)
  have "s' = ?t2\<lparr>commands := commands ?t2 @ [c]\<rparr>"
    using r rec kw mk rn sv
    by (simp add: run_def run_command_class_def Let_def split: if_splits)
  then have "commands s' = commands ?t2 @ [c]" by simp
  with ct show ?thesis by simp
qed

text \<open>
  Claim C3, as amended. Let a recording build environment with a build record, local
  or Docker, be fresh (no commands, no failure), and let its scope run two commands
  under the default policy: the entry returns, each command is constructed, runs to
  its end and is accepted by the tracking API, the first with exit code 0 and the
  second with exit code 2, and in the Docker case the teardown of the exit raises
  nothing. Then the scope ends without an exception, \<open>failed\<close> is true, the commands are
  exactly the two, and exactly one build record is put to the tracking API, with the
  success flag false. The failed command ends the scope by the warning-class signal,
  which is not stored as the failure: with no failure stored the error text of the
  record is empty and its exit code is 2. A failure is stored only in the Docker case,
  by the reconciliation with the container's state at the exit, as one of its three
  errors; the error text of the record is then the text of that error.
\<close>

theorem two_command_build_report:
  assumes rec: "record_flag s" and bd: "build s = Some b"
    and fresh: "commands s = []" "failure s = None"
    and enter: "env_enter sys k s = (Inr (), s0)"
    and mk1: "make_command k cmd1 default_kwargs s0 = Inr a1"
    and rn1: "run_command sys k (command_class s0) a1 s0 = (Inr c1, t1)"
    and e1: "exit_code c1 = Some 0"
    and po1: "fst (api_command_post sys c1 (has_feature (project s0) API_LARGE_DATA) (world t1))
                = Inr ()"
    and r1: "run sys k cmd1 default_kwargs s0 = (res1, s1)"
    and mk2: "make_command k cmd2 default_kwargs s1 = Inr a2"
    and rn2: "run_command sys k (command_class s1) a2 s1 = (Inr c2, t2)"
    and e2: "exit_code c2 = Some 2"
    and po2: "fst (api_command_post sys c2 (has_feature (project s1) API_LARGE_DATA) (world t2))
                = Inr ()"
    and r2: "run sys k cmd2 default_kwargs s1 = (res2, s2)"
    and td: "command_class s = DockerBuildCommand \<longrightarrow> fst (teardown sys k s2) = Inr ()"
  shows "\<exists>b' s'. with_env sys k [(cmd1, default_kwargs), (cmd2, default_kwargs)] s
                   = (Inr (), s') \<and>
           failed k s' \<and> \<not> successful k s' \<and>
           commands s' = [c1, c2] \<and> map command (commands s') = [cmd1, cmd2] \<and>
           build_puts (trace s') = build_puts (trace s) @ [b'] \<and>
           build_success b' = Some False \<and>
           (case failure s' of
              None \<Rightarrow> build_error b' = Some [] \<and> build_exit_code b' = Some 2
            | Some f \<Rightarrow>
                build_error b' = Some (exn_str f) \<and> exn_str f \<noteq> [] \<and>
                build_exit_code b' = Some (status_code k f) \<and>
                command_class s = DockerBuildCommand \<and>
                (\<exists>msg. f = Exn BuildEnvironmentError msg \<and>
                   (msg = py ''Build exited due to time out'' \<or>
                    msg = py ''Build exited due to excessive memory consumption'' \<or>
                    (\<exists>err. err \<noteq> [] \<and>
                       msg = py ''Build exited due to unknown error: '' @ err)))) \<and>
           (command_class s = DockerBuildCommand \<longrightarrow>
              failure s' = failure (snd (update_build_from_container_state sys k s2)))"
proof -
  from enter have en: "engine_only s s0" "failure s0 = failure s"
    by (rule env_enter_frame)+
  then have f0: "record_flag s0" "build s0 = Some b" "commands s0 = []" "failure s0 = None"
    "command_class s0 = command_class s" "build_puts (trace s0) = build_puts (trace s)"
    using rec bd fresh by (simp_all add: engine_only_def)
  from run_default [OF f0(1) f0(2) mk1 rn1 po1 r1] f0(3)
  have cs1: "commands s1 = commands s0 @ [c1]" by simp
  have nf1: "\<not> command_failed c1"
    using e1 by (simp add: command_failed_def command_successful_def)
  from run_recorded [OF f0(1) r1 cs1] nf1
  have res1: "res1 = Inr c1" and cc1: "command c1 = cmd1"
    and en1: "engine_only s0 (s1\<lparr>commands := commands s0\<rparr>)" and fl1: "failure s1 = failure s0"
    by simp_all
  from en1 have f1: "record_flag s1" "build s1 = Some b" "command_class s1 = command_class s"
    "build_puts (trace s1) = build_puts (trace s)"
    using f0 by (simp_all add: engine_only_def)
  from run_default [OF f1(1) f1(2) mk2 rn2 po2 r2]
  have cs2: "commands s2 = commands s1 @ [c2]" .
  have fc2: "command_failed c2"
    using e2 by (simp add: command_failed_def command_successful_def)
  let ?exc = "Exn BuildEnvironmentWarning (failure_message c2)"
  from run_recorded [OF f1(1) r2 cs2] fc2
  have res2: "res2 = Inl ?exc" and cc2: "command c2 = cmd2"
    and en2: "engine_only s1 (s2\<lparr>commands := commands s1\<rparr>)" and fl2: "failure s2 = failure s1"
    by simp_all
  from en2 have f2: "record_flag s2" "build s2 = Some b" "command_class s2 = command_class s"
    "build_puts (trace s2) = build_puts (trace s)" "commands s2 = [c1, c2]" "failure s2 = None"
    using f1 cs1 cs2 f0 fl1 fl2 by (simp_all add: engine_only_def)
  have body: "run_all sys k [(cmd1, default_kwargs), (cmd2, default_kwargs)] s0 = (Some ?exc, s2)"
    using r1 r2 res1 res2 by simp
  have ex: "\<exists>s3. env_exit sys k (Some ?exc) s2 = build_env_exit sys k (Some ?exc) s3 \<and>
      engine_only s2 s3 \<and>
      (command_class s = BuildCommand \<longrightarrow> failure s3 = None) \<and>
      (command_class s = DockerBuildCommand \<longrightarrow>
         failure s3 = failure (snd (update_build_from_container_state sys k s2))) \<and>
      (failure s3 = None \<or>
       (\<exists>msg. failure s3 = Some (Exn BuildEnvironmentError msg) \<and> msg \<noteq> [] \<and>
              (msg = py ''Build exited due to time out'' \<or>
               msg = py ''Build exited due to excessive memory consumption'' \<or>
               (\<exists>err. err \<noteq> [] \<and> msg = py ''Build exited due to unknown error: '' @ err))))"
  proof (cases "command_class s")
    case BuildCommand
    with f2 show ?thesis by (intro exI [of _ s2]) (simp add: env_exit_def)
  next
    case DockerBuildCommand
    obtain r3 s3 where t: "teardown sys k s2 = (r3, s3)" by (cases "teardown sys k s2")
    with td DockerBuildCommand have r3: "r3 = Inr ()" by simp
    from t have e3: "engine_only s2 s3"
      and fl3: "failure s3 = failure (snd (update_build_from_container_state sys k s2))"
      by (rule teardown_frame)+
    obtain r4 s4 where u: "update_build_from_container_state sys k s2 = (r4, s4)"
      by (cases "update_build_from_container_state sys k s2")
    from reconciliation_frame(2) [OF u] f2(6) fl3 u
    have "failure s3 = None \<or>
       (\<exists>msg. failure s3 = Some (Exn BuildEnvironmentError msg) \<and> msg \<noteq> [] \<and>
              (msg = py ''Build exited due to time out'' \<or>
               msg = py ''Build exited due to excessive memory consumption'' \<or>
               (\<exists>err. err \<noteq> [] \<and> msg = py ''Build exited due to unknown error: '' @ err)))"
      by simp
    moreover have "env_exit sys k (Some ?exc) s2 = build_env_exit sys k (Some ?exc) s3"
      using t r3 f2(3) DockerBuildCommand by (simp add: env_exit_def docker_env_exit_def)
    ultimately show ?thesis
      using e3 fl3 DockerBuildCommand by (intro exI [of _ s3]) simp
  qed
  then obtain s3 where x: "env_exit sys k (Some ?exc) s2 = build_env_exit sys k (Some ?exc) s3"
    and e3: "engine_only s2 s3"
    and loc: "command_class s = BuildCommand \<longrightarrow> failure s3 = None"
    and dock: "command_class s = DockerBuildCommand \<longrightarrow>
         failure s3 = failure (snd (update_build_from_container_state sys k s2))"
    and fl3: "failure s3 = None \<or>
       (\<exists>msg. failure s3 = Some (Exn BuildEnvironmentError msg) \<and> msg \<noteq> [] \<and>
              (msg = py ''Build exited due to time out'' \<or>
               msg = py ''Build exited due to excessive memory consumption'' \<or>
               (\<exists>err. err \<noteq> [] \<and> msg = py ''Build exited due to unknown error: '' @ err)))"
    by blast
  from e3 f2 have f3: "record_flag s3" "build s3 = Some b" "commands s3 = [c1, c2]"
    "build_puts (trace s3) = build_puts (trace s)"
    by (simp_all add: engine_only_def)
  have he: "handle_exception (Some ?exc) s3 = (True, s3)"
    by (simp add: handle_exception_def issubclass_def)
  from fl3 have fl3': "failure s3 = None \<or> (\<exists>msg. failure s3 = Some (Exn BuildEnvironmentError msg))"
    by blast
  from update_build_failed_commands [OF f3(1) f3(2) fl3' f3(3) e1 e2, of sys k]
  obtain b' s' where ub: "update_build sys k (BUILD_STATE_FINISHED k) s3 = (Inr (), s')"
    and bp': "build_puts (trace s') = build_puts (trace s3) @ [b']"
    and b': "build_success b' = Some False"
      "build_error b' = Some (case failure s3 of None \<Rightarrow> [] | Some f \<Rightarrow> exn_str f)"
      "build_exit_code b' = Some (case failure s3 of None \<Rightarrow> 2 | Some f \<Rightarrow> status_code k f)"
      "build_state b' = BUILD_STATE_FINISHED k"
    and s': "build s' = Some b'" "commands s' = commands s3" "failure s' = failure s3"
    by blast
  have res: "with_env sys k [(cmd1, default_kwargs), (cmd2, default_kwargs)] s = (Inr (), s')"
    using enter body x he ub by (simp add: with_env_def build_env_exit_def)
  have dn: "is_done k s'" using s'(1) b'(4) by (simp add: is_done_def)
  have fl: "failed k s'"
    using dn s'(2) f3(3) e2 by (simp add: failed_def command_failed_def command_successful_def)
  have ns: "\<not> successful k s'"
    using s'(2) f3(3) e2 by (simp add: successful_def command_successful_def)
  have mc: "commands s' = [c1, c2]" "map command (commands s') = [cmd1, cmd2]"
    using s'(2) f3(3) cc1 cc2 by simp_all
  have bps: "build_puts (trace s') = build_puts (trace s) @ [b']"
    using bp' f3(4) by simp
  have cls: "command_class s = BuildCommand \<or> command_class s = DockerBuildCommand"
    by (cases "command_class s") simp_all
  have cf: "case failure s' of
              None \<Rightarrow> build_error b' = Some [] \<and> build_exit_code b' = Some 2
            | Some f \<Rightarrow>
                build_error b' = Some (exn_str f) \<and> exn_str f \<noteq> [] \<and>
                build_exit_code b' = Some (status_code k f) \<and>
                command_class s = DockerBuildCommand \<and>
                (\<exists>msg. f = Exn BuildEnvironmentError msg \<and>
                   (msg = py ''Build exited due to time out'' \<or>
                    msg = py ''Build exited due to excessive memory consumption'' \<or>
                    (\<exists>err. err \<noteq> [] \<and>
                       msg = py ''Build exited due to unknown error: '' @ err)))"
  proof (cases "failure s3")
    case None
    with b' s'(3) show ?thesis by simp
  next
    case (Some f)
    with loc cls have d: "command_class s = DockerBuildCommand" by auto
    from Some fl3 obtain msg where m: "f = Exn BuildEnvironmentError msg" "msg \<noteq> []"
      "msg = py ''Build exited due to time out'' \<or>
       msg = py ''Build exited due to excessive memory consumption'' \<or>
       (\<exists>err. err \<noteq> [] \<and> msg = py ''Build exited due to unknown error: '' @ err)"
      by auto
    from Some b' s'(3) d m show ?thesis by simp
  qed
  have dk: "command_class s = DockerBuildCommand \<longrightarrow>
              failure s' = failure (snd (update_build_from_container_state sys k s2))"
    using dock s'(3) by simp
  from res fl ns mc bps b'(1) cf dk show ?thesis
    by (intro exI [of _ b'] exI [of _ s']) simp
qed

theorem two_command_build_report_witness:
  "(\<exists>b' s'. with_env true_false_system example_constants two_commands (example_local_env [])
                = (Inr (), s') \<and>
      failed example_constants s' \<and>
      map command (commands s') = [[py ''true''], [py ''false'']] \<and>
      map exit_code (commands s') = [Some 0, Some 2] \<and>
      build_puts (trace s') = [b'] \<and> build_success b' = Some False \<and>
      failure s' = None \<and> build_error b' = Some [] \<and> build_exit_code b' = Some 2) \<and>
   (\<exists>b' s'. with_env timed_out_system example_constants two_commands (example_docker_env [0, 2])
                = (Inr (), s') \<and>
      failed example_constants s' \<and>
      map command (commands s') = [[py ''true''], [py ''false'']] \<and>
      map exit_code (commands s') = [Some 0, Some 2] \<and>
      build_puts (trace s') = [b'] \<and> build_success b' = Some False \<and>
      failure s' = Some (Exn BuildEnvironmentError (py ''Build exited due to time out'')) \<and>
      build_error b' = Some (py ''Build exited due to time out''))"
proof
  let ?k = example_constants
  let ?sys = true_false_system
  let ?e = "example_local_env []"
  let ?c1 = "(default_command [py ''true''])\<lparr>cmd_output := Some [], exit_code := Some 0\<rparr>"
  let ?c2 = "(default_command [py ''false''])\<lparr>cmd_output := Some [], exit_code := Some 2\<rparr>"
  note sys_defs = true_false_system_def example_system_def
  have kf: "DATA_UPLOAD_MAX_MEMORY_SIZE ?k = 2621440"
    by (simp add: example_constants_def)
  have kw: "kw_record default_kwargs = None" "\<not> kw_warn_only default_kwargs"
    "\<not> kw_record_as_success default_kwargs"
    by (simp_all add: default_kwargs_def)
  note run_defs = run_command_def run_local_def perform_def sanitize_output_def decoded_def
    kf default_command_def Let_def
  note rec_defs = run_def run_command_class_def kw save_def has_feature_def
    example_project_def command_failed_def command_successful_def
  have ne: "py ''true'' \<noteq> py ''false''" by (simp add: py_def)
  have e: "record_flag ?e" "build ?e = Some example_build" "commands ?e = []"
    "failure ?e = None" "command_class ?e = BuildCommand" "environment ?e = Map.empty"
    "project ?e = example_project" "trace ?e = []"
    by (simp_all add: example_local_env_def build_env_init_def)
  have enter: "env_enter ?sys ?k ?e = (Inr (), ?e)"
    by (simp add: env_enter_def e)
  have mk1: "make_command ?k [py ''true''] default_kwargs ?e = Inr (default_command [py ''true''])"
    using e(6) by (rule default_command_made)
  obtain t1 where rn1: "run_command ?sys ?k (command_class ?e) (default_command [py ''true'']) ?e
      = (Inr ?c1, t1)"
    using ne by (simp add: e run_defs sys_defs)
  have po: "fst (api_command_post ?sys c m w) = Inr ()" for c m w
    by (simp add: sys_defs)
  obtain res1 s1 where r1: "run ?sys ?k [py ''true''] default_kwargs ?e = (res1, s1)"
    by (cases "run ?sys ?k [py ''true''] default_kwargs ?e")
  then have s1: "environment s1 = Map.empty" "command_class s1 = BuildCommand"
    "build s1 = Some example_build"
    using ne by (auto simp: rec_defs default_command_made e run_defs sys_defs)
  have mk2: "make_command ?k [py ''false''] default_kwargs s1
      = Inr (default_command [py ''false''])"
    using s1(1) by (rule default_command_made)
  obtain t2 where rn2: "run_command ?sys ?k (command_class s1) (default_command [py ''false'']) s1
      = (Inr ?c2, t2)"
    by (simp add: s1 run_defs sys_defs)
  obtain res2 s2 where r2: "run ?sys ?k [py ''false''] default_kwargs s1 = (res2, s2)"
    by (cases "run ?sys ?k [py ''false''] default_kwargs s1")
  have td: "command_class ?e = DockerBuildCommand \<longrightarrow> fst (teardown ?sys ?k s2) = Inr ()"
    by (simp add: e)
  have x: "exit_code ?c1 = Some 0" "exit_code ?c2 = Some 2" by simp_all
  from two_command_build_report
    [OF e(1) e(2) e(3) e(4) enter mk1 rn1 x(1) po r1 mk2 rn2 x(2) po r2 td]
  show "\<exists>b' s'. with_env true_false_system example_constants two_commands (example_local_env [])
                = (Inr (), s') \<and>
      failed example_constants s' \<and>
      map command (commands s') = [[py ''true''], [py ''false'']] \<and>
      map exit_code (commands s') = [Some 0, Some 2] \<and>
      build_puts (trace s') = [b'] \<and> build_success b' = Some False \<and>
      failure s' = None \<and> build_error b' = Some [] \<and> build_exit_code b' = Some 2"
    unfolding two_commands_def using e(5) e(8) by (auto split: option.splits)
next
  let ?k = example_constants
  let ?sys = timed_out_system
  let ?e = "example_docker_env [0, 2]"
  let ?c1 = "(default_command [py ''true''])\<lparr>cmd_output := Some [], exit_code := Some 0\<rparr>"
  let ?c2 = "(default_command [py ''false''])\<lparr>cmd_output := Some [], exit_code := Some 2\<rparr>"
  note sys_defs = timed_out_system_def timed_out_container_def example_system_def
  note enter_defs = env_enter_def docker_env_enter_def stale_check_def provision_def
    create_container_def container_state_def get_client_def perform_def container_id_def
    example_project_def
  have kf: "DATA_UPLOAD_MAX_MEMORY_SIZE ?k = 2621440" "DOCKER_OOM_EXIT_CODE ?k = 137"
    "DOCKER_TIMEOUT_EXIT_CODE ?k = 42"
    by (simp_all add: example_constants_def)
  have kw: "kw_record default_kwargs = None" "\<not> kw_warn_only default_kwargs"
    "\<not> kw_record_as_success default_kwargs"
    by (simp_all add: default_kwargs_def)
  note run_defs = run_command_def run_docker_def get_client_def perform_def container_id_def
    sanitize_output_def decoded_def kf default_command_def Let_def
  note rec_defs = run_def run_command_class_def kw save_def has_feature_def
    example_project_def command_failed_def command_successful_def
  note exit_defs = teardown_def update_build_from_container_state_def remove_step_def
    container_state_def get_client_def perform_def container_id_def kf
  note e = example_docker_env_fields
  obtain s0 where enter: "env_enter ?sys ?k ?e = (Inr (), s0)"
    by (simp add: enter_defs sys_defs e)
  then have s0: "world s0 = [0, 2]" "client s0"
    "container_name s0 \<noteq> []" "environment s0 = Map.empty"
    "build s0 = Some example_build" "record_flag s0" "project s0 = example_project"
    "command_class s0 = DockerBuildCommand"
    by (auto simp: enter_defs sys_defs e)
  have mk1: "make_command ?k [py ''true''] default_kwargs s0 = Inr (default_command [py ''true''])"
    using s0(4) by (rule default_command_made)
  obtain t1 where rn1: "run_command ?sys ?k (command_class s0) (default_command [py ''true'']) s0
      = (Inr ?c1, t1)"
    by (simp add: s0 run_defs sys_defs)
  have po: "fst (api_command_post ?sys c m w) = Inr ()" for c m w
    by (simp add: sys_defs)
  obtain res1 s1 where r1: "run ?sys ?k [py ''true''] default_kwargs s0 = (res1, s1)"
    by (cases "run ?sys ?k [py ''true''] default_kwargs s0")
  then have s1: "world s1 = [2]" "client s1" "container_name s1 \<noteq> []"
    "environment s1 = Map.empty" "build s1 = Some example_build"
    "command_class s1 = DockerBuildCommand" "project s1 = example_project" "record_flag s1"
    by (auto simp: rec_defs default_command_made s0 run_defs sys_defs)
  have mk2: "make_command ?k [py ''false''] default_kwargs s1
      = Inr (default_command [py ''false''])"
    using s1(4) by (rule default_command_made)
  obtain t2 where rn2: "run_command ?sys ?k (command_class s1) (default_command [py ''false'']) s1
      = (Inr ?c2, t2)"
    by (simp add: s1 run_defs sys_defs)
  obtain res2 s2 where r2: "run ?sys ?k [py ''false''] default_kwargs s1 = (res2, s2)"
    by (cases "run ?sys ?k [py ''false''] default_kwargs s1")
  then have s2: "client s2" "container_name s2 \<noteq> []"
    by (auto simp: rec_defs default_command_made s1 run_defs sys_defs)
  have td: "command_class ?e = DockerBuildCommand \<longrightarrow> fst (teardown ?sys ?k s2) = Inr ()"
    by (simp add: exit_defs s2 sys_defs)
  have rc: "failure (snd (update_build_from_container_state ?sys ?k s2))
      = Some (Exn BuildEnvironmentError (py ''Build exited due to time out''))"
    by (simp add: exit_defs s2 sys_defs)
  have x: "exit_code ?c1 = Some 0" "exit_code ?c2 = Some 2" by simp_all
  from two_command_build_report
    [OF e(3) e(2) e(6) e(5) enter mk1 rn1 x(1) po r1 mk2 rn2 x(2) po r2 td]
  obtain b' s' where w: "with_env ?sys ?k [([py ''true''], default_kwargs),
        ([py ''false''], default_kwargs)] ?e = (Inr (), s')"
    and fl: "failed ?k s'" and cs: "commands s' = [?c1, ?c2]"
    and mc: "map command (commands s') = [[py ''true''], [py ''false'']]"
    and bp: "build_puts (trace s') = build_puts (trace ?e) @ [b']"
    and sc: "build_success b' = Some False"
    and cf: "case failure s' of
              None \<Rightarrow> build_error b' = Some [] \<and> build_exit_code b' = Some 2
            | Some f \<Rightarrow>
                build_error b' = Some (exn_str f) \<and> exn_str f \<noteq> [] \<and>
                build_exit_code b' = Some (status_code ?k f) \<and>
                command_class ?e = DockerBuildCommand \<and>
                (\<exists>msg. f = Exn BuildEnvironmentError msg \<and>
                   (msg = py ''Build exited due to time out'' \<or>
                    msg = py ''Build exited due to excessive memory consumption'' \<or>
                    (\<exists>err. err \<noteq> [] \<and>
                       msg = py ''Build exited due to unknown error: '' @ err)))"
    and fs: "command_class ?e = DockerBuildCommand \<longrightarrow>
              failure s' = failure (snd (update_build_from_container_state ?sys ?k s2))"
    by (elim exE conjE) (rule that; assumption)
  from fs e(9) rc
  have f': "failure s' = Some (Exn BuildEnvironmentError (py ''Build exited due to time out''))"
    by simp
  with cf have be: "build_error b' = Some (py ''Build exited due to time out'')"
    by simp
  from cs have ec: "map exit_code (commands s') = [Some 0, Some 2]" by simp
  from bp e(7) have bp': "build_puts (trace s') = [b']" by simp
  from w fl mc ec bp' sc f' be
  show "\<exists>b' s'. with_env timed_out_system example_constants two_commands (example_docker_env [0, 2])
                = (Inr (), s') \<and>
      failed example_constants s' \<and>
      map command (commands s') = [[py ''true''], [py ''false'']] \<and>
      map exit_code (commands s') = [Some 0, Some 2] \<and>
      build_puts (trace s') = [b'] \<and> build_success b' = Some False \<and>
      failure s' = Some (Exn BuildEnvironmentError (py ''Build exited due to time out'')) \<and>
      build_error b' = Some (py ''Build exited due to time out'')"
    unfolding two_commands_def by (intro exI [of _ b'] exI [of _ s']) simp
qed

text \<open>
  Claim C3 as stated fails: the error text of the one build record that is put is the
  empty string.
\<close>

theorem two_command_build_puts_empty_error:
  "fst (with_build_env true_false_system example_constants two_commands (example_local_env []))
     = Inr () \<and>
   map exit_code (commands (snd (with_build_env true_false_system example_constants two_commands
     (example_local_env [])))) = [Some 0, Some 2] \<and>
   map build_error (build_puts (trace (snd (with_build_env true_false_system example_constants
     two_commands (example_local_env []))))) = [Some []] \<and>
   map build_success (build_puts (trace (snd (with_build_env true_false_system example_constants
     two_commands (example_local_env []))))) = [Some False]"
proof -
  have sn: "sanitize_output 2621440 be (Some []) = Inr (Some [])"
    "sanitize_output 2621440 be None = Inr None" for be
    by (simp_all add: sanitize_output_def decoded_def)
  have ne: "py ''true'' \<noteq> py ''false''" by (simp add: py_def)
  show ?thesis
    using sn ne
    by (simp add: with_build_env_def two_commands_def run_def run_command_class_def
      make_command_def command_init_def run_command_def run_local_def save_def perform_def
      get_command_def command_failed_def command_successful_def default_kwargs_def
      true_false_system_def example_system_def example_local_env_def build_env_init_def
      example_constants_def example_project_def example_build_def has_feature_def truthy_str_def
      build_env_exit_def handle_exception_def issubclass_def update_build_def
      set_build_fields_def is_done_def
      successful_def py_max_def Let_def)
qed

text \<open>The scope of a local build environment is the scope of \<^verbatim>\<open>BuildEnvironment\<close>.\<close>

lemma with_env_local:
  "command_class s = BuildCommand \<Longrightarrow> with_env sys k body s = with_build_env sys k body s"
proof -
  assume loc: "command_class s = BuildCommand"
  obtain exc s1 where b: "run_all sys k body s = (exc, s1)" by (cases "run_all sys k body s")
  have "command_class s1 = command_class s"
    using b
  proof (induction body arbitrary: s)
    case Nil
    then show ?case by simp
  next
    case (Cons a body)
    obtain cmd kw where a: "a = (cmd, kw)" by (cases a)
    obtain r t where r: "run sys k cmd kw s = (r, t)" by (cases "run sys k cmd kw s")
    have ct: "command_class t = command_class s"
    proof -
      have "run_command_class sys k (command_class s) cmd kw s = (r, t)"
        using r by (simp add: run_def)
      then show ?thesis
        by (auto simp: run_command_class_def Let_def
            dest!: run_command_only_io save_frame(1) only_io_fields(9)
            split: sum.splits prod.splits if_splits)
    qed
    show ?case
    proof (cases r)
      case (Inl e)
      with Cons.prems a r ct show ?thesis by simp
    next
      case (Inr c)
      with Cons.prems a r have "run_all sys k body t = (exc, s1)" by simp
      with Cons.IH ct show ?thesis by simp
    qed
  qed
  with loc b show ?thesis
    by (simp add: with_env_def with_build_env_def env_enter_def env_exit_def)
qed

section \<open>Entry into and exit from a Docker build environment\<close>

lemma no_create_since_refl [simp]: "no_create_since s s"
  by (simp add: no_create_since_def)

lemma no_create_since_trans:
  "no_create_since s s1 \<Longrightarrow> no_create_since s1 s2 \<Longrightarrow> no_create_since s s2"
  by (auto simp: no_create_since_def)

lemma perform_no_create:
  "perform c f s = (r, s') \<Longrightarrow> \<not> is_create c \<Longrightarrow> no_create_since s s'"
  by (auto simp: perform_def no_create_since_def split: prod.splits)

lemma get_client_no_create: "get_client sys k s = (r, s') \<Longrightarrow> no_create_since s s'"
  by (auto simp: get_client_def perform_def no_create_since_def
      split: prod.splits sum.splits if_splits)

lemma container_state_no_create:
  assumes "container_state sys k s = (r, s')"
  shows "no_create_since s s'"
proof -
  obtain r1 s1 where g: "get_client sys k s = (r1, s1)" by (cases "get_client sys k s")
  then have n1: "no_create_since s s1" by (rule get_client_no_create)
  have "no_create_since s1 s'"
    using assms g
    by (auto simp: container_state_def perform_def no_create_since_def
        split: prod.splits sum.splits if_splits)
  with n1 show ?thesis by (rule no_create_since_trans)
qed

lemma update_build_from_container_state_no_create:
  assumes "update_build_from_container_state sys k s = (r, s')"
  shows "no_create_since s s'"
proof -
  obtain r1 s1 where c: "container_state sys k s = (r1, s1)" by (cases "container_state sys k s")
  then have n1: "no_create_since s s1" by (rule container_state_no_create)
  have "trace s' = trace s1"
    using assms c
    by (auto simp: update_build_from_container_state_def
        split: prod.splits sum.splits if_splits option.splits)
  with n1 show ?thesis by (simp add: no_create_since_def)
qed

lemma remove_step_no_create: "remove_step sys s = (r, s') \<Longrightarrow> no_create_since s s'"
  by (auto simp: remove_step_def perform_def no_create_since_def
      split: prod.splits sum.splits if_splits)

lemma teardown_no_create:
  assumes "teardown sys k s = (r, s')"
  shows "no_create_since s s'"
proof -
  obtain r1 s1 where u: "update_build_from_container_state sys k s = (r1, s1)"
    by (cases "update_build_from_container_state sys k s")
  then have n1: "no_create_since s s1" by (rule update_build_from_container_state_no_create)
  obtain r2 s2 where g: "get_client sys k s1 = (r2, s2)" by (cases "get_client sys k s1")
  then have n2: "no_create_since s1 s2" by (rule get_client_no_create)
  obtain r3 s3 where p: "perform (Call_kill (container_id s2)) (client_kill sys (container_id s2)) s2
      = (r3, s3)"
    by (cases "perform (Call_kill (container_id s2)) (client_kill sys (container_id s2)) s2")
  then have n3: "no_create_since s2 s3" by (rule perform_no_create) simp
  obtain r4 s4 where rs: "remove_step sys s3 = (r4, s4)" by (cases "remove_step sys s3")
  then have n4: "no_create_since s3 s4" by (rule remove_step_no_create)
  have "s' = s1 \<or> s' = s2 \<or> s' = s3 \<or> s' = s4"
    using assms u g p rs
    by (auto simp: teardown_def split: prod.splits sum.splits if_splits)
  with n1 n2 n3 n4 show ?thesis
    by (auto intro: no_create_since_trans)
qed

lemma set_build_fields_trace: "trace (snd (set_build_fields k st b0 s)) = trace s"
  by (simp add: set_build_fields_def Let_def split: sum.splits option.splits)

lemma update_build_no_create:
  assumes "update_build sys k st s = (r, s')"
  shows "no_create_since s s'"
proof (cases "record_flag s")
  case False
  with assms show ?thesis by (simp add: update_build_def)
next
  case True
  show ?thesis
  proof (cases "build s")
    case None
    with assms True show ?thesis by (simp add: update_build_def)
  next
    case (Some b0)
    obtain e s4 where f: "set_build_fields k st b0 s = (e, s4)"
      by (cases "set_build_fields k st b0 s")
    then have t4: "trace s4 = trace s" using set_build_fields_trace [of k st b0 s] by simp
    have "trace s' = trace s4 \<or> (\<exists>b. trace s' = trace s4 @ [Call_build_put b])"
      using assms True Some f
      by (auto simp: update_build_def perform_def split: option.splits if_splits prod.splits)
    with t4 show ?thesis by (auto simp: no_create_since_def)
  qed
qed

lemma handle_exception_trace: "trace (snd (handle_exception exc s)) = trace s"
  by (simp add: handle_exception_def split: option.splits)

lemma build_env_exit_no_create:
  assumes "build_env_exit sys k exc s = (r, s')"
  shows "no_create_since s s'"
proof -
  obtain ret s1 where h: "handle_exception exc s = (ret, s1)" by (cases "handle_exception exc s")
  then have t1: "trace s1 = trace s" using handle_exception_trace [of exc s] by simp
  obtain r2 s2 where u: "update_build sys k (BUILD_STATE_FINISHED k) s1 = (r2, s2)"
    by (cases "update_build sys k (BUILD_STATE_FINISHED k) s1")
  then have "no_create_since s1 s2" by (rule update_build_no_create)
  then have n: "no_create_since s s2" using t1 by (simp add: no_create_since_def)
  have "s' = s2" using assms h u by (auto simp: build_env_exit_def split: sum.splits)
  with n show ?thesis by simp
qed

lemma docker_env_exit_no_create:
  assumes "docker_env_exit sys k exc s = (r, s')"
  shows "no_create_since s s'"
proof -
  obtain r1 s1 where t: "teardown sys k s = (r1, s1)" by (cases "teardown sys k s")
  then have n1: "no_create_since s s1" by (rule teardown_no_create)
  have "s' = s1 \<or> (\<exists>exc'. build_env_exit sys k exc' s1 = (r, s'))"
    using assms t by (auto simp: docker_env_exit_def split: sum.splits if_splits)
  then show ?thesis
    using n1 by (auto dest: build_env_exit_no_create intro: no_create_since_trans)
qed

text \<open>
  What holds of the entry into a Docker build environment when the engine reports a
  running container of that name: the entry raises and the container is never created;
  the exception is the lock-contention error whenever the scope exit that the entry
  runs first does not itself raise, and else the exception of that exit.
\<close>

lemma running_container_never_provisioned:
  assumes cs: "container_state sys k s = (Inr (Some st), s1)" and run: "Running st = Some True"
  shows "\<exists>e s' s2 r. docker_env_enter sys k s = (Inl e, s') \<and> no_create_since s s' \<and>
           docker_env_exit sys k (Some lock_error) s2 = (r, s') \<and> failure s2 = Some lock_error \<and>
           (case r of Inl e2 \<Rightarrow> e = e2 | Inr ret \<Rightarrow> e = lock_error)"
proof -
  let ?s2 = "s1\<lparr>failure := Some lock_error\<rparr>"
  let ?s3 = "(case build ?s2 of
               Some b \<Rightarrow> ?s2\<lparr>build := Some (b\<lparr>build_state := BUILD_STATE_FINISHED k\<rparr>)\<rparr>
             | None \<Rightarrow> ?s2)"
  have sc: "stale_check sys k s = (Inl lock_error, ?s3)"
    using cs run by (simp add: stale_check_def lock_error_def Let_def split: option.splits)
  have f3: "failure ?s3 = Some lock_error" by (simp split: option.splits)
  have t3: "trace ?s3 = trace s1" by (simp split: option.splits)
  from cs have "no_create_since s s1" by (rule container_state_no_create)
  with t3 have n3: "no_create_since s ?s3" by (simp add: no_create_since_def)
  obtain r s' where ex: "docker_env_exit sys k (Some lock_error) ?s3 = (r, s')"
    by (cases "docker_env_exit sys k (Some lock_error) ?s3")
  then have "no_create_since ?s3 s'" by (rule docker_env_exit_no_create)
  with n3 have n: "no_create_since s s'" by (rule no_create_since_trans)
  have cls: "\<not> isinstance lock_error DockerAPIError" "\<not> isinstance lock_error ConnectionError"
    "isinstance lock_error BuildEnvironmentError"
    by (simp_all add: isinstance_def issubclass_def lock_error_def)
  have en: "docker_env_enter sys k s =
      (Inl (case r of Inl e2 \<Rightarrow> e2 | Inr ret \<Rightarrow> lock_error), s')"
    using sc cls ex by (simp add: docker_env_enter_def exit_and_reraise_def split: sum.splits)
  show ?thesis
    using en n ex f3
    by (intro exI [of _ "case r of Inl e2 \<Rightarrow> e2 | Inr ret \<Rightarrow> lock_error"] exI [of _ s']
        exI [of _ ?s3] exI [of _ r]) (simp split: sum.splits)
qed

text \<open>The exit of the base build environment gives up every exception of the scope.\<close>

lemma update_build_raises:
  assumes "fst (update_build sys k st s) = Inl e"
  shows "record_flag s \<and> (build s = None \<or> (None \<in> set (map exit_code (commands s)) \<and> 2 \<le> length (commands s)))"
proof -
  have pm: "py_max xs = Inl x \<Longrightarrow> xs \<noteq> [] \<Longrightarrow> None \<in> set xs \<and> 2 \<le> length xs" for xs x
    by (auto simp: py_max_def split: list.splits if_splits)
  show ?thesis
  proof (cases "record_flag s")
    case False
    with assms show ?thesis by (simp add: update_build_def)
  next
    case True
    show ?thesis
    proof (cases "build s")
      case None
      with True show ?thesis by simp
    next
      case (Some b0)
      obtain r s4 where f: "set_build_fields k st b0 s = (r, s4)"
        by (cases "set_build_fields k st b0 s")
      have "r \<noteq> None"
        using assms True Some f
        by (auto simp: update_build_def perform_def split: option.splits if_splits prod.splits)
      then obtain x where "py_max (map exit_code (commands s)) = Inl x" "commands s \<noteq> []"
        using f
        by (auto simp: set_build_fields_def Let_def split: if_splits option.splits sum.splits)
      with pm [of "map exit_code (commands s)" x] True show ?thesis by simp
    qed
  qed
qed

lemma build_env_exit_swallows:
  assumes bd: "build s \<noteq> None" and ec: "list_all (\<lambda>c. exit_code c \<noteq> None) (commands s)"
  shows "fst (build_env_exit sys k (Some e) s) = Inr True"
proof -
  obtain ret s1 where h: "handle_exception (Some e) s = (ret, s1)"
    by (cases "handle_exception (Some e) s")
  then have r: "ret" and b1: "build s1 = build s" and c1: "commands s1 = commands s"
    by (auto simp: handle_exception_def split: if_splits)
  obtain r2 s2 where u: "update_build sys k (BUILD_STATE_FINISHED k) s1 = (r2, s2)"
    by (cases "update_build sys k (BUILD_STATE_FINISHED k) s1")
  have "r2 = Inr ()"
  proof (cases r2)
    case (Inl x)
    with u update_build_raises [of sys k "BUILD_STATE_FINISHED k" s1 x]
    have "build s1 = None \<or> None \<in> set (map exit_code (commands s1))" by auto
    with b1 c1 bd ec show ?thesis by (auto simp: list_all_iff)
  next
    case (Inr x)
    then show ?thesis by simp
  qed
  with h u r show ?thesis by (simp add: build_env_exit_def)
qed

text \<open>
  Claim C5 fails on the code. At the exit of a Docker build environment whose engine
  loses the connection when asked to kill the container, the connection error leaves
  the exit, with or without an exception of the scope, and no build record is put,
  since the exit of the base class is never reached. The same error raised by the
  removal of the container, the next step, is given up.
\<close>

theorem docker_env_exit_propagates_connection_error:
  "fst (docker_env_exit lost_connection_system example_constants None (example_docker_env []))
     = Inl lost_connection \<and>
   fst (docker_env_exit lost_connection_system example_constants
          (Some (Exn OtherException (py ''boom''))) (example_docker_env []))
     = Inl lost_connection \<and>
   build_puts (trace (snd (docker_env_exit lost_connection_system example_constants None
     (example_docker_env [])))) = [] \<and>
   fst (docker_env_exit failing_remove_system example_constants None (example_docker_env []))
     = Inr False"
  by (simp add: docker_env_exit_def teardown_def remove_step_def
      update_build_from_container_state_def
      container_state_def get_client_def perform_def isinstance_def issubclass_def
      lost_connection_system_def failing_remove_system_def lost_connection_def
      example_system_def running_container_def example_docker_env_fields
      build_env_exit_def handle_exception_def update_build_def set_build_fields_def
      is_done_def successful_def example_constants_def Let_def)

text \<open>
  Claim C7 fails on the code. With a running container of the derived name the entry
  stores the lock-contention error and runs the scope exit before raising it again;
  when the engine loses the connection during that exit, the connection error leaves
  the entry instead of the lock-contention error.
\<close>

theorem docker_env_enter_raises_connection_error:
  "fst (docker_env_enter lost_connection_system example_constants (example_docker_env []))
     = Inl lost_connection \<and>
   lost_connection \<noteq> lock_error \<and>
   failure (snd (docker_env_enter lost_connection_system example_constants
     (example_docker_env []))) = Some lock_error \<and>
   build_puts (trace (snd (docker_env_enter lost_connection_system example_constants
     (example_docker_env [])))) = []"
  by (simp add: docker_env_enter_def stale_check_def exit_and_reraise_def
      docker_env_exit_def teardown_def update_build_from_container_state_def
      container_state_def get_client_def perform_def isinstance_def issubclass_def
      lost_connection_system_def lost_connection_def lock_error_def example_system_def
      running_container_def example_docker_env_fields Let_def split: option.splits)

text \<open>
  When the engine reports a container of that name that is not running, the entry asks
  the engine to remove it and goes on to provisioning, also when the removal raises an
  API error or a connection error.
\<close>

lemma container_state_client:
  "container_state sys k s = (Inr r, s1) \<Longrightarrow> client s1"
  by (auto simp: container_state_def get_client_def perform_def
      split: prod.splits sum.splits if_splits)

lemma stale_container_removed_before_provisioning:
  assumes cs: "container_state sys k s = (Inr (Some st), s1)" and run: "Running st \<noteq> Some True"
    and rm: "client_remove_container sys (container_id s1) (world s1) = (r, w)"
    and sw: "case r of Inr u \<Rightarrow> True
             | Inl e \<Rightarrow> isinstance e DockerAPIError \<or> isinstance e ConnectionError"
  shows "docker_env_enter sys k s =
           provision sys k
             (s1\<lparr>world := w, trace := trace s1 @ [Call_remove_container (container_id s1)]\<rparr>)"
proof -
  from cs have cl: "client s1" by (rule container_state_client)
  then have gc: "get_client sys k s1 = (Inr (), s1)" by (simp add: get_client_def)
  have sc: "stale_check sys k s =
      (r, s1\<lparr>world := w, trace := trace s1 @ [Call_remove_container (container_id s1)]\<rparr>)"
    using cs run gc rm by (simp add: stale_check_def perform_def)
  show ?thesis
    using sc sw by (auto simp: docker_env_enter_def split: sum.splits)
qed

end

